theory Spec2Isabelle
  imports Complex_Main "HOL-Library.Signed_Division"
begin

section \<open>Cursor interaction, zoom mapping and graph history of OpenHantek\<close>

text \<open>
  The development embeds the cursor and time-marker logic of \<^verbatim>\<open>glscope.cpp\<close> and
  \<^verbatim>\<open>dsowidget.cpp\<close>. Positions, grid sizes and gains are values of finite C++
  \<^verbatim>\<open>double\<close>s and \<^verbatim>\<open>float\<close>s, kept as the \<^typ>\<open>real\<close> numbers they denote. The pointer
  handlers, the cursor geometry and the measurements are computed on these reals,
  without rounding. The zoom mapping is embedded twice: once in exact arithmetic
  with the division made total by an error value for the zero divisor, and once in
  IEEE 754 binary64 arithmetic with a rounding after every operation, infinities and
  NaN, which is what the trigger-position slider of the zoom view is computed from.
  Pixel coordinates and widget sizes are integers without a bound, with the
  truncating division of C++. Container accesses that C++ leaves undefined (an index
  beyond the end of a \<^verbatim>\<open>std::vector\<close>, the last element of an empty \<^verbatim>\<open>std::list\<close>) are
  error values.
\<close>

subsection \<open>Constants and errors\<close>

text \<open>
  The header \<^verbatim>\<open>viewconstants.h\<close> and the declaration of \<^verbatim>\<open>NO_MARKER\<close> are not among
  the sources, so the grid sizes and the marker sentinel are parameters.
\<close>

record view_constants =
  DIVS_TIME :: real
  DIVS_VOLTAGE :: real
  NO_MARKER :: nat

text \<open>
  Modelled from the spec: \<^verbatim>\<open>MARKER_COUNT\<close> (declared in \<^verbatim>\<open>viewconstants.h\<close>) is the
  number of marker positions of a cursor; a cursor has two marker positions, with
  indices exactly 0 and 1.
\<close>

definition MARKER_COUNT :: nat where
  "MARKER_COUNT = 2"

text \<open>
  The grid has a positive extent on both axes and the sentinel is not a marker index.
\<close>

definition valid_constants :: "view_constants \<Rightarrow> bool" where
  "valid_constants c \<longleftrightarrow>
     0 < DIVS_TIME c \<and> 0 < DIVS_VOLTAGE c \<and> MARKER_COUNT \<le> NO_MARKER c"

datatype error = DivisionByZero | OutOfRange | EmptyContainer

text \<open>Exact division, with the zero divisor made explicit.\<close>

definition fdiv :: "real \<Rightarrow> real \<Rightarrow> error + real" where
  "fdiv a b = (if b = 0 then Inl DivisionByZero else Inr (a / b))"

subsection \<open>Binary64 arithmetic\<close>

text \<open>
  The C++ type \<^verbatim>\<open>double\<close> as IEEE 754 binary64: a finite value, an infinity or a NaN.
  A finite double is kept as the real number it denotes; the sign of a zero is not
  kept, and where IEEE 754 looks at it (the sign of \<open>x / 0\<close>) the zero is read as
  \<open>+0\<close>. Every arithmetic operation computes the exact result and rounds it once, to
  the nearest double, ties to the even significand (\<open>fl\<close>), as the compiled code does
  on a target without fused multiply-add and with the default rounding mode.
\<close>

datatype double = Finite real | PlusInf | MinusInf | NaN

definition pow2 :: "int \<Rightarrow> real" where
  "pow2 e = (if 0 \<le> e then 2 ^ nat e else 1 / 2 ^ nat (- e))"

text \<open>Rounding to the nearest integer, ties to even.\<close>

definition rne :: "real \<Rightarrow> int" where
  "rne y = (let f = \<lfloor>y\<rfloor>; r = y - of_int f
            in if r < 1 / 2 then f else if 1 / 2 < r then f + 1
               else if even f then f else f + 1)"

text \<open>The least and the greatest exponent of a normal binary64 number.\<close>

definition emin :: int where
  "emin = - 1022"

definition emax :: int where
  "emax = 1023"

text \<open>
  The exponent whose spacing applies to \<open>x\<close>: the least \<open>e\<close> from \<open>emin\<close> on with
  \<open>\<bar>x\<bar> < 2 ^ (e + 1)\<close>; below \<open>2 ^ emin\<close> the spacing is that of the subnormal numbers.
\<close>

definition binade :: "real \<Rightarrow> int" where
  "binade x = (case List.find (\<lambda>e. \<bar>x\<bar> < pow2 (e + 1)) [emin..emax] of
                 Some e \<Rightarrow> e | None \<Rightarrow> emax + 1)"

text \<open>
  Rounding of an exact result to a double: to a multiple of the spacing
  \<open>2 ^ (e - 52)\<close>, and to an infinity when the rounded value reaches \<open>2 ^ 1024\<close>.
\<close>

definition fl :: "real \<Rightarrow> double" where
  "fl x = (let q = pow2 (binade x - 52); r = of_int (rne (x / q)) * q
           in if pow2 (emax + 1) \<le> r then PlusInf
              else if r \<le> - pow2 (emax + 1) then MinusInf
              else Finite r)"

fun dneg :: "double \<Rightarrow> double" where
  "dneg (Finite x) = Finite (- x)"
| "dneg PlusInf = MinusInf"
| "dneg MinusInf = PlusInf"
| "dneg NaN = NaN"

fun dadd :: "double \<Rightarrow> double \<Rightarrow> double" where
  "dadd (Finite x) (Finite y) = fl (x + y)"
| "dadd NaN b = NaN"
| "dadd a NaN = NaN"
| "dadd PlusInf MinusInf = NaN"
| "dadd MinusInf PlusInf = NaN"
| "dadd PlusInf b = PlusInf"
| "dadd a PlusInf = PlusInf"
| "dadd MinusInf b = MinusInf"
| "dadd a MinusInf = MinusInf"

definition dsub :: "double \<Rightarrow> double \<Rightarrow> double" where
  "dsub a b = dadd a (dneg b)"

fun negative :: "double \<Rightarrow> bool" where
  "negative (Finite x) = (x < 0)"
| "negative MinusInf = True"
| "negative PlusInf = False"
| "negative NaN = False"

definition signed_inf :: "bool \<Rightarrow> double" where
  "signed_inf neg = (if neg then MinusInf else PlusInf)"

fun dmul :: "double \<Rightarrow> double \<Rightarrow> double" where
  "dmul (Finite x) (Finite y) = fl (x * y)"
| "dmul NaN b = NaN"
| "dmul a NaN = NaN"
| "dmul a b = (if a = Finite 0 \<or> b = Finite 0 then NaN
               else signed_inf (negative a \<noteq> negative b))"

text \<open>
  Division does not trap: a finite nonzero value divided by zero is an infinity, and
  \<open>0 / 0\<close> is a NaN.
\<close>

fun ddiv :: "double \<Rightarrow> double \<Rightarrow> double" where
  "ddiv (Finite x) (Finite y) =
     (if y = 0 then (if x = 0 then NaN else signed_inf (x < 0)) else fl (x / y))"
| "ddiv NaN b = NaN"
| "ddiv a NaN = NaN"
| "ddiv (Finite x) b = Finite 0"
| "ddiv a (Finite y) = signed_inf (negative a \<noteq> (y < 0))"
| "ddiv a b = NaN"

text \<open>The comparisons \<^verbatim>\<open><=\<close> and \<^verbatim>\<open><\<close>; both are false when an operand is a NaN.\<close>

fun dle :: "double \<Rightarrow> double \<Rightarrow> bool" where
  "dle (Finite x) (Finite y) = (x \<le> y)"
| "dle NaN b = False"
| "dle a NaN = False"
| "dle MinusInf b = True"
| "dle a PlusInf = True"
| "dle a b = False"

fun dless :: "double \<Rightarrow> double \<Rightarrow> bool" where
  "dless (Finite x) (Finite y) = (x < y)"
| "dless NaN b = False"
| "dless a NaN = False"
| "dless MinusInf b = (b \<noteq> MinusInf)"
| "dless a PlusInf = (a \<noteq> PlusInf)"
| "dless a b = False"

subsection \<open>Points and cursors\<close>

datatype QPointF = QPointF (xp: real) (yp: real)

definition setX :: "QPointF \<Rightarrow> real \<Rightarrow> QPointF" where
  "setX p v = QPointF v (yp p)"

definition setY :: "QPointF \<Rightarrow> real \<Rightarrow> QPointF" where
  "setY p v = QPointF (xp p) v"

datatype CursorShape = NONE | HORIZONTAL | VERTICAL | RECTANGULAR

text \<open>
  \<^verbatim>\<open>DsoSettingsScopeCursor\<close>: a shape and the array \<^verbatim>\<open>position[MARKER_COUNT]\<close>, here a
  list that \<open>cursor_ok\<close> keeps at that length.
\<close>

record DsoSettingsScopeCursor =
  shape :: CursorShape
  position :: "QPointF list"

definition cursor_ok :: "DsoSettingsScopeCursor \<Rightarrow> bool" where
  "cursor_ok cur \<longleftrightarrow> length (position cur) = MARKER_COUNT"

subsection \<open>Scope settings read by the widget\<close>

text \<open>
  Modelled from the spec: the settings classes (\<^verbatim>\<open>scopesettings.h\<close>) are not among
  the sources. A voltage channel has a used flag, a cursor and a gain in volts per
  division, which \<^verbatim>\<open>scope->gain(channel)\<close> returns; the horizontal settings have the
  time-marker cursor and the timebase in seconds per division.
\<close>

record DsoSettingsScopeVoltage =
  used :: bool
  cursor :: DsoSettingsScopeCursor
  gain :: real

record DsoSettingsScope =
  horizontal_cursor :: DsoSettingsScopeCursor
  horizontal_timebase :: real
  trigger_position :: real
  voltage :: "DsoSettingsScopeVoltage list"

text \<open>
  Modelled from the spec: \<^verbatim>\<open>getMarker\<close> and \<^verbatim>\<open>setMarker\<close> belong to
  \<^verbatim>\<open>scopesettings.h\<close>, which is not among the sources. The two time markers are the
  x-positions of the two markers of the time-axis cursor.
\<close>

definition getMarker :: "DsoSettingsScope \<Rightarrow> nat \<Rightarrow> real" where
  "getMarker sc marker = xp (position (horizontal_cursor sc) ! marker)"

definition setMarker :: "DsoSettingsScope \<Rightarrow> nat \<Rightarrow> real \<Rightarrow> error + DsoSettingsScope" where
  "setMarker sc marker v =
     (if marker < MARKER_COUNT
      then Inr (sc\<lparr>horizontal_cursor :=
             (horizontal_cursor sc)\<lparr>position :=
               (position (horizontal_cursor sc))
                 [marker := setX (position (horizontal_cursor sc) ! marker) v]\<rparr>\<rparr>)
      else Inl OutOfRange)"

subsection \<open>Zoom mapping\<close>

text \<open>
  \<^verbatim>\<open>DsoWidget::mainToZoom\<close> and \<^verbatim>\<open>DsoWidget::zoomToMain\<close>. Both read the two time
  markers and swap them when they are out of order. First in exact arithmetic, where
  the division by a zero divisor is the error value.
\<close>

definition mainToZoom :: "view_constants \<Rightarrow> DsoSettingsScope \<Rightarrow> real \<Rightarrow> error + real" where
  "mainToZoom c sc pos =
     (let m1 = getMarker sc 0; m2 = getMarker sc 1;
          (m1, m2) = (if m1 > m2 then (m2, m1) else (m1, m2))
      in fdiv ((pos - 0.5) * DIVS_TIME c - m1) (m2 - m1))"

definition zoomToMain :: "view_constants \<Rightarrow> DsoSettingsScope \<Rightarrow> real \<Rightarrow> error + real" where
  "zoomToMain c sc pos =
     (let m1 = getMarker sc 0; m2 = getMarker sc 1;
          (m1, m2) = (if m1 > m2 then (m2, m1) else (m1, m2))
      in case fdiv (m1 + pos * (m2 - m1)) (DIVS_TIME c) of
           Inl e \<Rightarrow> Inl e
         | Inr q \<Rightarrow> Inr (0.5 + q))"

text \<open>
  The same two functions as the compiled code evaluates them, in binary64 arithmetic:
  one rounding per operation, no error value. The markers and the grid size are
  finite doubles.
\<close>

definition mainToZoom_double :: "view_constants \<Rightarrow> DsoSettingsScope \<Rightarrow> double \<Rightarrow> double" where
  "mainToZoom_double c sc pos =
     (let m1 = getMarker sc 0; m2 = getMarker sc 1;
          (m1, m2) = (if m1 > m2 then (m2, m1) else (m1, m2))
      in ddiv (dsub (dmul (dsub pos (Finite 0.5)) (Finite (DIVS_TIME c))) (Finite m1))
              (dsub (Finite m2) (Finite m1)))"

definition zoomToMain_double :: "view_constants \<Rightarrow> DsoSettingsScope \<Rightarrow> double \<Rightarrow> double" where
  "zoomToMain_double c sc pos =
     (let m1 = getMarker sc 0; m2 = getMarker sc 1;
          (m1, m2) = (if m1 > m2 then (m2, m1) else (m1, m2))
      in dadd (Finite 0.5)
              (ddiv (dadd (Finite m1) (dmul pos (dsub (Finite m2) (Finite m1))))
                    (Finite (DIVS_TIME c))))"

subsection \<open>The trigger-position slider of the zoom view\<close>

text \<open>
  Modelled from the spec: \<^verbatim>\<open>LevelSlider\<close> (\<^verbatim>\<open>widgets/levelslider.h\<close>) is not among the
  sources. The dependent control has a declared range, an enabled flag and a value,
  all three \<^verbatim>\<open>double\<close>s; setting the value stores it.
\<close>

record LevelSlider =
  minimum :: double
  maximum :: double
  enabled :: bool
  slider_value :: double

definition setEnabled :: "LevelSlider \<Rightarrow> bool \<Rightarrow> LevelSlider" where
  "setEnabled slider b = slider\<lparr>enabled := b\<rparr>"

definition setValue :: "LevelSlider \<Rightarrow> double \<Rightarrow> LevelSlider" where
  "setValue slider v = slider\<lparr>slider_value := v\<rparr>"

subsection \<open>Cursor measurement labels\<close>

text \<open>
  A label text is empty or the result of \<^verbatim>\<open>valueToString\<close>, whose formatting
  (\<^verbatim>\<open>utils/printutils.h\<close>) is not among the sources: the text keeps the value, the unit
  and the precision it was made from.
\<close>

datatype Unit = UNIT_SECONDS | UNIT_VOLTS

datatype QString = EmptyString | valueToString real Unit nat | tr string

record CursorInfo =
  selector_enabled :: bool
  shape_text :: QString
  deltaXLabel :: QString
  deltaYLabel :: QString

definition hideCursorInfo :: "CursorInfo \<Rightarrow> CursorInfo" where
  "hideCursorInfo info =
     info\<lparr>shape_text := EmptyString, deltaXLabel := EmptyString, deltaYLabel := EmptyString\<rparr>"

fun updateCursorInfo :: "CursorInfo \<Rightarrow> QString \<Rightarrow> QString \<Rightarrow> CursorShape \<Rightarrow> CursorInfo" where
  "updateCursorInfo info strX strY NONE =
     info\<lparr>shape_text := tr ''OFF'', deltaXLabel := EmptyString, deltaYLabel := EmptyString\<rparr>"
| "updateCursorInfo info strX strY HORIZONTAL =
     info\<lparr>shape_text := tr ''='', deltaXLabel := EmptyString, deltaYLabel := strY\<rparr>"
| "updateCursorInfo info strX strY VERTICAL =
     info\<lparr>shape_text := tr ''||'', deltaXLabel := strX, deltaYLabel := EmptyString\<rparr>"
| "updateCursorInfo info strX strY RECTANGULAR =
     info\<lparr>shape_text := tr ''#'', deltaXLabel := strX, deltaYLabel := strY\<rparr>"

subsection \<open>The widget around the scopes\<close>

record DsoWidget =
  scope :: DsoSettingsScope
  zoom_triggerPositionSlider :: LevelSlider
  voltageCursors :: "CursorInfo list"

text \<open>
  \<^verbatim>\<open>DsoWidget::adaptTriggerPositionSlider\<close>. The mapped trigger position is the
  \<^verbatim>\<open>double\<close> that \<^verbatim>\<open>mainToZoom\<close> returns, an infinity or a NaN when the markers
  coincide; the comparisons with the bounds are those of \<^verbatim>\<open>double\<close>.
\<close>

definition adaptTriggerPositionSlider :: "view_constants \<Rightarrow> DsoWidget \<Rightarrow> DsoWidget" where
  "adaptTriggerPositionSlider c w =
     (let v = mainToZoom_double c (scope w) (Finite (trigger_position (scope w)));
          slider = zoom_triggerPositionSlider w
      in if dle (minimum slider) v \<and> dle v (maximum slider)
         then w\<lparr>zoom_triggerPositionSlider := setValue (setEnabled slider True) v\<rparr>
         else (let slider = setEnabled slider False
               in if dless v (minimum slider)
                  then w\<lparr>zoom_triggerPositionSlider := setValue slider (minimum slider)\<rparr>
                  else w\<lparr>zoom_triggerPositionSlider := setValue slider (maximum slider)\<rparr>))"

text \<open>
  The loop over the voltage channels of \<^verbatim>\<open>DsoWidget::updateMarkerDetails\<close>: one
  iteration, then the loop over the channel indices.
\<close>

definition updateVoltageCursor :: "DsoSettingsScope \<Rightarrow> nat \<Rightarrow> CursorInfo list \<Rightarrow> CursorInfo list" where
  "updateVoltageCursor sc channel infos =
     (if used (voltage sc ! channel)
      then (let info = (infos ! channel)\<lparr>selector_enabled := True\<rparr>;
                p0 = position (cursor (voltage sc ! channel)) ! 0;
                p1 = position (cursor (voltage sc ! channel)) ! 1
            in infos[channel :=
                 updateCursorInfo info
                   (valueToString ((xp p1 - xp p0) * horizontal_timebase sc) UNIT_SECONDS 4)
                   (valueToString ((yp p1 - yp p0) * gain (voltage sc ! channel)) UNIT_VOLTS 4)
                   (shape (cursor (voltage sc ! channel)))])
      else infos[channel := hideCursorInfo ((infos ! channel)\<lparr>selector_enabled := False\<rparr>)])"

definition updateMarkerDetails :: "DsoWidget \<Rightarrow> DsoWidget" where
  "updateMarkerDetails w =
     w\<lparr>voltageCursors :=
         fold (updateVoltageCursor (scope w)) [0..<length (voltage (scope w))] (voltageCursors w)\<rparr>"

text \<open>
  \<^verbatim>\<open>DsoWidget::updateMarker\<close>, the handler of a moved time marker. The only error is
  that of \<open>setMarker\<close>, a marker index beyond the two markers.
\<close>

definition updateMarker :: "view_constants \<Rightarrow> DsoWidget \<Rightarrow> nat \<Rightarrow> real \<Rightarrow> error + DsoWidget" where
  "updateMarker c w marker v =
     (case setMarker (scope w) marker v of
        Inl e \<Rightarrow> Inl e
      | Inr sc \<Rightarrow> Inr (updateMarkerDetails (adaptTriggerPositionSlider c (w\<lparr>scope := sc\<rparr>))))"

subsection \<open>The scope view\<close>

datatype MouseButton = LeftButton | RightButton | MiddleButton

record QMouseEvent =
  ev_x :: int
  ev_y :: int
  button :: MouseButton
  buttons :: "MouseButton set"

datatype QVector3D = QVector3D real real real

type_synonym Vertices = "QVector3D list"

text \<open>
  Modelled from the spec: the class \<^verbatim>\<open>Graph\<close> and its \<^verbatim>\<open>writeData\<close> are not among
  the sources. A slot of the history is empty when it is created and \<^verbatim>\<open>writeData\<close>
  overwrites its contents with the frame.
\<close>

datatype 'd Graph = Graph "'d option"

definition writeData :: "'d \<Rightarrow> 'd Graph \<Rightarrow> 'd Graph" where
  "writeData d g = Graph (Some d)"

text \<open>
  The state of a \<^verbatim>\<open>GlScope\<close>. \<open>cursorInfo\<close> holds the cursors that the pointers of
  the C++ vector refer to (distinct objects of the settings: the time-marker cursor
  first, then one per channel). \<open>digitalPhosphorDraws\<close> is the value that
  \<^verbatim>\<open>view->digitalPhosphorDraws()\<close> returns, and \<open>markerMoved\<close> lists the arguments of
  the \<^verbatim>\<open>markerMoved\<close> signals emitted so far, oldest first; the slots connected to
  the signal are outside this state.
\<close>

record 'd GlScope =
  zoomed :: bool
  width :: int
  height :: int
  cursorInfo :: "DsoSettingsScopeCursor list"
  selectedCursor :: nat
  selectedMarker :: nat
  vaMarker :: "Vertices list"
  shaderCompileSuccess :: bool
  digitalPhosphorDraws :: nat
  m_GraphHistory :: "'d Graph list"
  markerMoved :: "nat list"

definition GlScope_ok :: "'d GlScope \<Rightarrow> bool" where
  "GlScope_ok s \<longleftrightarrow>
     selectedCursor s < length (cursorInfo s) \<and> list_all cursor_ok (cursorInfo s)"

definition emit_markerMoved :: "nat \<Rightarrow> 'd GlScope \<Rightarrow> 'd GlScope" where
  "emit_markerMoved marker s = s\<lparr>markerMoved := markerMoved s @ [marker]\<rparr>"

text \<open>The pointer position in grid divisions, as the three handlers compute it.\<close>

definition eventPosition :: "view_constants \<Rightarrow> 'd GlScope \<Rightarrow> QMouseEvent \<Rightarrow> error + QPointF" where
  "eventPosition c s e =
     (case fdiv (real_of_int (ev_x e - width s sdiv 2) * DIVS_TIME c) (real_of_int (width s)) of
        Inl err \<Rightarrow> Inl err
      | Inr px \<Rightarrow>
          (case fdiv (real_of_int (height s sdiv 2 - ev_y e) * DIVS_VOLTAGE c)
                     (real_of_int (height s)) of
             Inl err \<Rightarrow> Inl err
           | Inr py \<Rightarrow> Inr (QPointF px py)))"

text \<open>
  The assignment \<^verbatim>\<open>cursorInfo[selectedCursor]->position[marker] = position\<close>.
\<close>

definition setPosition :: "'d GlScope \<Rightarrow> nat \<Rightarrow> QPointF \<Rightarrow> error + 'd GlScope" where
  "setPosition s marker p =
     (if selectedCursor s < length (cursorInfo s)
      then (let cur = cursorInfo s ! selectedCursor s
            in Inr (s\<lparr>cursorInfo :=
                 (cursorInfo s)[selectedCursor s := cur\<lparr>position := (position cur)[marker := p]\<rparr>]\<rparr>))
      else Inl OutOfRange)"

text \<open>
  The capture loop of \<^verbatim>\<open>GlScope::mousePressEvent\<close>: one iteration, on the pair of
  the closest distances and the selected marker, then the loop over the markers.
\<close>

definition captureStep ::
  "view_constants \<Rightarrow> DsoSettingsScopeCursor \<Rightarrow> QPointF \<Rightarrow> nat \<Rightarrow> QPointF \<times> nat \<Rightarrow> QPointF \<times> nat" where
  "captureStep c cur p marker st =
     (let captureX = (shape cur = RECTANGULAR \<or> shape cur = VERTICAL);
          captureY = (shape cur = RECTANGULAR \<or> shape cur = HORIZONTAL);
          st1 = (if captureX \<and> \<bar>xp (position cur ! marker) - xp p\<bar>
                                 < min (xp (fst st)) (DIVS_TIME c / 100)
                 then (setX (fst st) \<bar>xp (position cur ! marker) - xp p\<bar>, marker)
                 else st);
          st2 = (if captureY \<and> \<bar>yp (position cur ! marker) - yp p\<bar>
                                 < min (yp (fst st1)) (DIVS_VOLTAGE c / 100)
                 then (setY (fst st1) \<bar>yp (position cur ! marker) - yp p\<bar>, marker)
                 else st1)
      in st2)"

definition captureNearestMarker :: "view_constants \<Rightarrow> DsoSettingsScopeCursor \<Rightarrow> QPointF \<Rightarrow> nat" where
  "captureNearestMarker c cur p =
     snd (fold (captureStep c cur p) [0..<MARKER_COUNT]
            (QPointF (DIVS_TIME c) (DIVS_VOLTAGE c), NO_MARKER c))"

definition mousePressEvent :: "view_constants \<Rightarrow> 'd GlScope \<Rightarrow> QMouseEvent \<Rightarrow> error + 'd GlScope" where
  "mousePressEvent c s e =
     (if \<not> zoomed s \<and> button e = LeftButton
      then (case eventPosition c s e of
              Inl err \<Rightarrow> Inl err
            | Inr p \<Rightarrow>
                if selectedCursor s < length (cursorInfo s)
                then (let cur = cursorInfo s ! selectedCursor s;
                          sel = captureNearestMarker c cur p;
                          s1 = s\<lparr>selectedMarker := sel\<rparr>
                      in if sel \<noteq> NO_MARKER c
                         then (case setPosition s1 sel p of
                                 Inl err \<Rightarrow> Inl err
                               | Inr s2 \<Rightarrow>
                                   if selectedCursor s = 0 then Inr (emit_markerMoved sel s2)
                                   else Inr s2)
                         else Inr s1)
                else Inl OutOfRange)
      else Inr s)"

text \<open>
  The loop of \<^verbatim>\<open>GlScope::mouseMoveEvent\<close> that moves every marker to the pointer and
  leaves the last one selected.
\<close>

fun moveAllMarkers :: "nat list \<Rightarrow> QPointF \<Rightarrow> 'd GlScope \<Rightarrow> error + 'd GlScope" where
  "moveAllMarkers [] p s = Inr s"
| "moveAllMarkers (marker # ms) p s =
     (case setPosition s marker p of
        Inl err \<Rightarrow> Inl err
      | Inr s1 \<Rightarrow> moveAllMarkers ms p ((emit_markerMoved marker s1)\<lparr>selectedMarker := marker\<rparr>))"

definition mouseMoveEvent :: "view_constants \<Rightarrow> 'd GlScope \<Rightarrow> QMouseEvent \<Rightarrow> error + 'd GlScope" where
  "mouseMoveEvent c s e =
     (if \<not> zoomed s \<and> LeftButton \<in> buttons e
      then (case eventPosition c s e of
              Inl err \<Rightarrow> Inl err
            | Inr p \<Rightarrow>
                if selectedMarker s = NO_MARKER c
                then moveAllMarkers [0..<MARKER_COUNT] p s
                else if selectedMarker s < MARKER_COUNT
                then (case setPosition s (selectedMarker s) p of
                        Inl err \<Rightarrow> Inl err
                      | Inr s1 \<Rightarrow> Inr (emit_markerMoved (selectedMarker s) s1))
                else Inr s)
      else Inr s)"

definition mouseReleaseEvent :: "view_constants \<Rightarrow> 'd GlScope \<Rightarrow> QMouseEvent \<Rightarrow> error + 'd GlScope" where
  "mouseReleaseEvent c s e =
     (if \<not> zoomed s \<and> button e = LeftButton
      then (case eventPosition c s e of
              Inl err \<Rightarrow> Inl err
            | Inr p \<Rightarrow>
                if selectedMarker s < MARKER_COUNT
                then (case setPosition s (selectedMarker s) p of
                        Inl err \<Rightarrow> Inl err
                      | Inr s1 \<Rightarrow>
                          Inr ((emit_markerMoved (selectedMarker s) s1)\<lparr>selectedMarker := NO_MARKER c\<rparr>))
                else Inr (s\<lparr>selectedMarker := NO_MARKER c\<rparr>))
      else Inr s)"

subsection \<open>Cursor geometry\<close>

text \<open>\<^verbatim>\<open>GlScope::generateVertices\<close>: the outline stored in \<^verbatim>\<open>vaMarker[marker]\<close>.\<close>

definition generateVertices ::
  "view_constants \<Rightarrow> 'd GlScope \<Rightarrow> nat \<Rightarrow> DsoSettingsScopeCursor \<Rightarrow> error + 'd GlScope" where
  "generateVertices c s marker cur =
     (if marker < length (vaMarker s)
      then Inr (s\<lparr>vaMarker := (vaMarker s)[marker :=
             (case shape cur of
                NONE \<Rightarrow>
                  [QVector3D (- DIVS_TIME c) (- DIVS_VOLTAGE c) 1,
                   QVector3D (- DIVS_TIME c) (DIVS_VOLTAGE c) 1,
                   QVector3D (DIVS_TIME c) (DIVS_VOLTAGE c) 1,
                   QVector3D (DIVS_TIME c) (- DIVS_VOLTAGE c) 1]
              | VERTICAL \<Rightarrow>
                  [QVector3D (xp (position cur ! 0)) (- DIVS_VOLTAGE c) 1,
                   QVector3D (xp (position cur ! 0)) (DIVS_VOLTAGE c) 1,
                   QVector3D (xp (position cur ! 1)) (DIVS_VOLTAGE c) 1,
                   QVector3D (xp (position cur ! 1)) (- DIVS_VOLTAGE c) 1]
              | HORIZONTAL \<Rightarrow>
                  [QVector3D (- DIVS_TIME c) (yp (position cur ! 0)) 1,
                   QVector3D (DIVS_TIME c) (yp (position cur ! 0)) 1,
                   QVector3D (DIVS_TIME c) (yp (position cur ! 1)) 1,
                   QVector3D (- DIVS_TIME c) (yp (position cur ! 1)) 1]
              | RECTANGULAR \<Rightarrow>
                  [QVector3D (xp (position cur ! 0)) (yp (position cur ! 0)) 1,
                   QVector3D (xp (position cur ! 0)) (yp (position cur ! 1)) 1,
                   QVector3D (xp (position cur ! 1)) (yp (position cur ! 1)) 1,
                   QVector3D (xp (position cur ! 1)) (yp (position cur ! 0)) 1])]\<rparr>)
      else Inl OutOfRange)"

subsection \<open>Graph history\<close>

text \<open>
  \<^verbatim>\<open>GlScope::showData\<close> in its four steps: drop entries beyond the capacity, add one
  when the history is short, move the last entry to the front, write the frame there.
\<close>

fun removeTooMuch :: "nat \<Rightarrow> 'a list \<Rightarrow> 'a list" where
  "removeTooMuch draws h = (if draws < length h then removeTooMuch draws (butlast h) else h)"

declare removeTooMuch.simps [simp del]

definition addIfMissing :: "nat \<Rightarrow> 'd Graph list \<Rightarrow> 'd Graph list" where
  "addIfMissing draws h = (if draws > length h then h @ [Graph None] else h)"

definition moveLastToFront :: "'a list \<Rightarrow> error + 'a list" where
  "moveLastToFront h = (if h = [] then Inl EmptyContainer else Inr (last h # butlast h))"

definition writeFront :: "'d \<Rightarrow> 'd Graph list \<Rightarrow> error + 'd Graph list" where
  "writeFront d h = (case h of [] \<Rightarrow> Inl EmptyContainer | g # gs \<Rightarrow> Inr (writeData d g # gs))"

definition showData :: "'d GlScope \<Rightarrow> 'd \<Rightarrow> error + 'd GlScope" where
  "showData s d =
     (if \<not> shaderCompileSuccess s then Inr s
      else (case moveLastToFront
                   (addIfMissing (digitalPhosphorDraws s)
                      (removeTooMuch (digitalPhosphorDraws s) (m_GraphHistory s))) of
              Inl err \<Rightarrow> Inl err
            | Inr h \<Rightarrow>
                (case writeFront d h of
                   Inl err \<Rightarrow> Inl err
                 | Inr h' \<Rightarrow> Inr (s\<lparr>m_GraphHistory := h'\<rparr>))))"

text \<open>A run of calls of \<open>showData\<close>, one per frame, stopping at the first error.\<close>

fun showDataAll :: "'d GlScope \<Rightarrow> 'd list \<Rightarrow> error + 'd GlScope" where
  "showDataAll s [] = Inr s"
| "showDataAll s (d # ds) = (case showData s d of Inl err \<Rightarrow> Inl err | Inr s1 \<Rightarrow> showDataAll s1 ds)"

subsection \<open>Example values\<close>

text \<open>
  Concrete inputs for the closed instances below: a grid of 10 by 8 divisions with
  the largest 32-bit value as marker sentinel, and settings whose time markers are at
  the given positions.
\<close>

definition example_constants :: view_constants where
  "example_constants = \<lparr>DIVS_TIME = 10, DIVS_VOLTAGE = 8, NO_MARKER = 4294967295\<rparr>"

definition example_scope :: "real \<Rightarrow> real \<Rightarrow> DsoSettingsScope" where
  "example_scope a b =
     \<lparr>horizontal_cursor = \<lparr>shape = VERTICAL, position = [QPointF a 0, QPointF b 0]\<rparr>,
      horizontal_timebase = 1 / 1000,
      trigger_position = 1 / 2,
      voltage = [\<lparr>used = True,
                  cursor = \<lparr>shape = RECTANGULAR, position = [QPointF 0 0, QPointF 2 1]\<rparr>,
                  gain = 1 / 2\<rparr>]\<rparr>"

definition example_view :: "DsoSettingsScopeCursor list \<Rightarrow> nat \<Rightarrow> nat \<Rightarrow> nat GlScope" where
  "example_view cursors cur_index marker_index =
     \<lparr>zoomed = False, width = 1000, height = 800,
      cursorInfo = cursors, selectedCursor = cur_index, selectedMarker = marker_index,
      vaMarker = map (\<lambda>_. []) cursors,
      shaderCompileSuccess = True, digitalPhosphorDraws = 2,
      m_GraphHistory = [], markerMoved = []\<rparr>"

definition example_widget :: "real \<Rightarrow> real \<Rightarrow> DsoWidget" where
  "example_widget a b =
     \<lparr>scope = example_scope a b,
      zoom_triggerPositionSlider =
        \<lparr>minimum = Finite 0, maximum = Finite 1, enabled = False, slider_value = Finite 0\<rparr>,
      voltageCursors = [\<lparr>selector_enabled = False, shape_text = EmptyString,
                         deltaXLabel = EmptyString, deltaYLabel = EmptyString\<rparr>]\<rparr>"

definition example_widget_shape :: "CursorShape \<Rightarrow> DsoWidget" where
  "example_widget_shape sh =
     (example_widget 0 1)\<lparr>scope := (example_scope 0 1)\<lparr>voltage :=
        [\<lparr>used = True,
          cursor = \<lparr>shape = sh, position = [QPointF 0 0, QPointF 2 1]\<rparr>,
          gain = 1 / 2\<rparr>]\<rparr>\<rparr>"

definition example_event :: "int \<Rightarrow> int \<Rightarrow> QMouseEvent" where
  "example_event px py = \<lparr>ev_x = px, ev_y = py, button = LeftButton, buttons = {LeftButton}\<rparr>"

section \<open>Properties\<close>

subsection \<open>Binary64 rounding\<close>

lemma pow2_powr: "pow2 e = 2 powr real_of_int e"
  by (simp add: pow2_def powr_int)

lemma pow2_pos: "0 < pow2 e"
  by (simp add: pow2_powr)

lemma pow2_add: "pow2 (a + b) = pow2 a * pow2 b"
  by (simp add: pow2_powr powr_add)

lemma pow2_mono: "a \<le> b \<Longrightarrow> pow2 a \<le> pow2 b"
  by (simp add: pow2_powr)

lemma rne_error: "\<bar>of_int (rne t) - t\<bar> \<le> 1 / 2"
  unfolding rne_def Let_def by (auto; linarith)

lemma rne_eqI:
  assumes "\<bar>t - of_int k\<bar> < 1 / 2 \<or> (\<bar>t - of_int k\<bar> = 1 / 2 \<and> even k)"
  shows "rne t = k"
proof -
  have fl: "of_int \<lfloor>t\<rfloor> \<le> t" "t < of_int \<lfloor>t\<rfloor> + 1" by linarith+
  from assms consider (near) "\<bar>t - of_int k\<bar> < 1 / 2"
    | (up) "t = of_int k + 1 / 2" "even k" | (down) "t = of_int k - 1 / 2" "even k"
    by (auto simp: abs_if split: if_splits) (linarith+)?
  then show ?thesis
  proof cases
    case near
    then have lo: "of_int k - 1 / 2 < t" and hi: "t < of_int k + 1 / 2" by linarith+
    with fl have "\<lfloor>t\<rfloor> = k \<or> \<lfloor>t\<rfloor> = k - 1" by linarith
    then show ?thesis
    proof
      assume f: "\<lfloor>t\<rfloor> = k"
      from hi have "t - of_int k < 1 / 2" by linarith
      with f show ?thesis by (simp add: rne_def Let_def)
    next
      assume f: "\<lfloor>t\<rfloor> = k - 1"
      from lo have "1 / 2 < t - of_int (k - 1)" by simp
      then have "\<not> t - of_int (k - 1) < 1 / 2" by linarith
      with f \<open>1 / 2 < t - of_int (k - 1)\<close> show ?thesis
        unfolding rne_def Let_def by (simp only: f if_False if_True)
    qed
  next
    case up
    then have "\<lfloor>t\<rfloor> = k" by (simp add: floor_unique)
    with up show ?thesis by (simp add: rne_def Let_def)
  next
    case down
    then have "\<lfloor>t\<rfloor> = k - 1" by (intro floor_unique) simp_all
    with down show ?thesis by (simp add: rne_def Let_def)
  qed
qed

lemma binade_cases: "binade x = emin \<or> pow2 (binade x) \<le> \<bar>x\<bar>"
proof (cases "List.find (\<lambda>e. \<bar>x\<bar> < pow2 (e + 1)) [emin..emax]")
  case None
  have "emax \<in> set [emin..emax]" by (simp add: emin_def emax_def)
  with None have "\<not> \<bar>x\<bar> < pow2 (emax + 1)"
    unfolding find_None_iff by blast
  with None show ?thesis by (simp add: binade_def)
next
  case (Some e)
  then obtain i where i: "i < length [emin..emax]"
    "e = [emin..emax] ! i" "\<forall>j<i. \<not> \<bar>x\<bar> < pow2 ([emin..emax] ! j + 1)"
    unfolding find_Some_iff by blast
  from i(1) have ie: "e = emin + int i" using i(2) by (simp add: nth_upto)
  show ?thesis
  proof (cases i)
    case 0
    with ie Some show ?thesis by (simp add: binade_def)
  next
    case (Suc j)
    with i(1,3) have "\<not> \<bar>x\<bar> < pow2 ([emin..emax] ! j + 1)" by simp
    moreover from Suc i(1) have "[emin..emax] ! j = emin + int j" by (simp add: nth_upto)
    ultimately have "pow2 e \<le> \<bar>x\<bar>" using ie Suc by (simp add: algebra_simps)
    with Some show ?thesis by (simp add: binade_def)
  qed
qed

lemma binade_eqI:
  assumes "emin \<le> e" and "e \<le> emax" and "\<bar>x\<bar> < pow2 (e + 1)"
    and "e = emin \<or> pow2 e \<le> \<bar>x\<bar>"
  shows "binade x = e"
proof -
  let ?P = "\<lambda>e. \<bar>x\<bar> < pow2 (e + 1)"
  let ?i = "nat (e - emin)"
  have len: "?i < length [emin..emax]" using assms(1,2) by simp
  have nth: "[emin..emax] ! ?i = e" using assms(1,2) by (simp add: nth_upto)
  have before: "\<not> ?P ([emin..emax] ! j)" if "j < ?i" for j
  proof -
    from that assms(1,2) have j: "[emin..emax] ! j = emin + int j" by (simp add: nth_upto)
    from that have "emin + int j + 1 \<le> e" by simp
    then have "pow2 (emin + int j + 1) \<le> pow2 e" by (rule pow2_mono)
    moreover from that assms(4) have "pow2 e \<le> \<bar>x\<bar>" by auto
    ultimately show ?thesis using j by simp
  qed
  have "List.find ?P [emin..emax] = Some e"
    unfolding find_Some_iff using len nth before assms(3) by (intro exI [of _ ?i]) auto
  then show ?thesis by (simp add: binade_def)
qed

lemma fl_Finite:
  assumes "fl y = Finite r"
  shows "r = of_int (rne (y / pow2 (binade y - 52))) * pow2 (binade y - 52)"
    and "\<bar>r\<bar> < pow2 (emax + 1)"
  using assms by (auto simp: fl_def Let_def split: if_splits)

lemma pow2_half: "pow2 (e - 52) / 2 = pow2 (e - 53)"
proof -
  have "pow2 (e - 52) = pow2 ((e - 53) + 1)" by simp
  also have "\<dots> = pow2 (e - 53) * pow2 1" by (rule pow2_add)
  finally show ?thesis by (simp add: pow2_def)
qed

lemma pow2_shift: "pow2 (e - 53) = pow2 e / 2 ^ 53"
proof -
  have "pow2 (e - 53) = pow2 (e + (- 53))" by simp
  also have "\<dots> = pow2 e * pow2 (- 53)" by (rule pow2_add)
  finally show ?thesis by (simp add: pow2_def)
qed

lemma round_error:
  "\<bar>of_int (rne (y / pow2 (e - 52))) * pow2 (e - 52) - y\<bar> \<le> pow2 (e - 53)"
proof -
  let ?q = "pow2 (e - 52)"
  have q: "0 < ?q" by (rule pow2_pos)
  have "of_int (rne (y / ?q)) * ?q - y = (of_int (rne (y / ?q)) - y / ?q) * ?q"
    using q by (simp add: algebra_simps)
  then have "\<bar>of_int (rne (y / ?q)) * ?q - y\<bar> = \<bar>of_int (rne (y / ?q)) - y / ?q\<bar> * ?q"
    using q by (simp add: abs_mult)
  also have "\<dots> \<le> 1 / 2 * ?q"
    using q rne_error [of "y / ?q"] by (intro mult_right_mono) simp_all
  also have "\<dots> = pow2 (e - 53)" using pow2_half [of e] by simp
  finally show ?thesis .
qed

lemma fl_error:
  assumes "fl y = Finite r"
  shows "\<bar>r - y\<bar> \<le> \<bar>y\<bar> / 2 ^ 53 + pow2 (emin - 53)"
proof -
  from assms have r: "r = of_int (rne (y / pow2 (binade y - 52))) * pow2 (binade y - 52)"
    by (rule fl_Finite)
  then have le: "\<bar>r - y\<bar> \<le> pow2 (binade y - 53)" using round_error [of y "binade y"] by simp
  from binade_cases [of y] show ?thesis
  proof
    assume "binade y = emin"
    with le have "\<bar>r - y\<bar> \<le> pow2 (emin - 53)" by simp
    moreover have "0 \<le> \<bar>y\<bar> / 2 ^ 53" by simp
    ultimately show ?thesis by linarith
  next
    assume "pow2 (binade y) \<le> \<bar>y\<bar>"
    then have "pow2 (binade y - 53) \<le> \<bar>y\<bar> / 2 ^ 53"
      by (simp add: pow2_shift divide_right_mono)
    moreover have "0 < pow2 (emin - 53)" by (rule pow2_pos)
    ultimately show ?thesis using le by linarith
  qed
qed

lemma fl_cert:
  assumes "emin \<le> e" and "e \<le> emax" and "\<bar>x\<bar> < pow2 (e + 1)"
    and "e = emin \<or> pow2 e \<le> \<bar>x\<bar>"
    and "r = of_int k * pow2 (e - 52)"
    and "\<bar>x / pow2 (e - 52) - of_int k\<bar> < 1 / 2
         \<or> (\<bar>x / pow2 (e - 52) - of_int k\<bar> = 1 / 2 \<and> even k)"
    and "\<bar>r\<bar> < pow2 (emax + 1)"
  shows "fl x = Finite r"
proof -
  from assms(1-4) have b: "binade x = e" by (rule binade_eqI)
  from assms(6) have k: "rne (x / pow2 (e - 52)) = k" by (rule rne_eqI)
  from assms(7) have "\<not> pow2 (emax + 1) \<le> r" "\<not> r \<le> - pow2 (emax + 1)" by linarith+
  with b k assms(5) show ?thesis by (simp add: fl_def Let_def)
qed

lemma fl_evalI:
  assumes "emin \<le> e" and "e < emax" and "\<bar>x\<bar> < pow2 (e + 1)"
    and "e = emin \<or> pow2 e \<le> \<bar>x\<bar>"
    and "r = of_int k * pow2 (e - 52)"
    and "\<bar>x / pow2 (e - 52) - of_int k\<bar> < 1 / 2
         \<or> (\<bar>x / pow2 (e - 52) - of_int k\<bar> = 1 / 2 \<and> even k)"
  shows "fl x = Finite r"
proof -
  let ?q = "pow2 (e - 52)"
  have q: "0 < ?q" by (rule pow2_pos)
  from assms(6) have "\<bar>x / ?q - of_int k\<bar> \<le> 1 / 2" by linarith
  then have "\<bar>x / ?q - of_int k\<bar> * ?q \<le> 1 / 2 * ?q"
    using q by (intro mult_right_mono) simp_all
  moreover have "x - r = (x / ?q - of_int k) * ?q"
    using q assms(5) by (simp add: algebra_simps)
  then have "\<bar>x - r\<bar> = \<bar>x / ?q - of_int k\<bar> * ?q"
    using q by (simp add: abs_mult)
  ultimately have "\<bar>x - r\<bar> \<le> ?q" using q by linarith
  moreover have "?q \<le> pow2 (e + 1)" by (intro pow2_mono) simp
  ultimately have "\<bar>r\<bar> < pow2 (e + 1) + pow2 (e + 1)" using assms(3) by linarith
  also have "\<dots> = pow2 (e + 1 + 1)" unfolding pow2_add [of "e + 1" 1] by (simp add: pow2_def)
  also from assms(2) have "\<dots> \<le> pow2 (emax + 1)" by (intro pow2_mono) simp
  finally have "\<bar>r\<bar> < pow2 (emax + 1)" .
  with assms show ?thesis by (intro fl_cert [of e x r k]) simp_all
qed

lemmas fl_eval_defs = pow2_def emin_def emax_def

lemma fl_zero: "fl 0 = Finite 0"
  by (rule fl_evalI [where e = "- 1022" and k = 0]) (simp_all add: fl_eval_defs)

text \<open>A result of moderate magnitude is rounded to a finite double.\<close>

lemma binade_le: "binade x \<le> emax + 1"
proof (cases "List.find (\<lambda>e. \<bar>x\<bar> < pow2 (e + 1)) [emin..emax]")
  case None
  then show ?thesis by (simp add: binade_def)
next
  case (Some e)
  then have "e \<in> set [emin..emax]" unfolding find_Some_iff by (metis nth_mem)
  with Some show ?thesis by (simp add: binade_def)
qed

lemma fl_finite:
  assumes "\<bar>y\<bar> \<le> 2 ^ n" and "n \<le> 1000"
  obtains r where "fl y = Finite r" and "\<bar>r\<bar> \<le> 2 ^ (n + 2)"
proof -
  define r where "r = of_int (rne (y / pow2 (binade y - 52))) * pow2 (binade y - 52)"
  have "\<bar>r - y\<bar> \<le> pow2 (binade y - 53)" unfolding r_def by (rule round_error)
  also have "\<dots> \<le> pow2 (emax + 1 - 53)" using binade_le [of y] by (intro pow2_mono) simp
  finally have d: "\<bar>r - y\<bar> \<le> pow2 (emax + 1 - 53)" .
  have "(2::real) ^ n \<le> 2 ^ 1000" using assms(2) by (intro power_increasing) simp_all
  with assms(1) have y: "\<bar>y\<bar> \<le> 2 ^ 1000" by linarith
  have "pow2 (emax + 1 - 53) + 2 ^ 1000 < pow2 (emax + 1)" by (simp add: pow2_def emax_def)
  with d y have "\<bar>r\<bar> < pow2 (emax + 1)" by linarith
  then have f: "fl y = Finite r" by (simp add: fl_def Let_def r_def [symmetric]) linarith
  then have "\<bar>r - y\<bar> \<le> \<bar>y\<bar> / 2 ^ 53 + pow2 (emin - 53)" by (rule fl_error)
  moreover have "pow2 (emin - 53) \<le> pow2 0" by (intro pow2_mono) (simp add: emin_def)
  then have "pow2 (emin - 53) \<le> 1" by (simp add: pow2_def)
  moreover have "\<bar>y\<bar> / 2 ^ 53 \<le> \<bar>y\<bar>" by (simp add: field_simps)
  ultimately have "\<bar>r\<bar> \<le> 2 * \<bar>y\<bar> + 1" by linarith
  moreover have "(1::real) \<le> 2 ^ n" by simp
  ultimately have "\<bar>r\<bar> \<le> 4 * 2 ^ n" using assms(1) by linarith
  then have "\<bar>r\<bar> \<le> 2 ^ (n + 2)" by simp
  with f show ?thesis by (rule that)
qed

lemma abs_mult_le:
  fixes p q :: real
  assumes "\<bar>p\<bar> \<le> 2 ^ m" and "\<bar>q\<bar> \<le> 2 ^ n"
  shows "\<bar>p * q\<bar> \<le> 2 ^ (m + n)"
proof -
  have "\<bar>p\<bar> * \<bar>q\<bar> \<le> 2 ^ m * 2 ^ n" using assms by (intro mult_mono) simp_all
  then show ?thesis by (simp add: abs_mult power_add)
qed

lemma abs_divide_le:
  fixes p q :: real
  assumes "\<bar>p\<bar> \<le> 2 ^ m" and "1 / 2 ^ n \<le> \<bar>q\<bar>"
  shows "\<bar>p / q\<bar> \<le> 2 ^ (m + n)"
proof -
  have "0 < 1 / (2::real) ^ n" by simp
  with assms(2) have q: "0 < \<bar>q\<bar>" by linarith
  have "\<bar>p\<bar> / \<bar>q\<bar> \<le> 2 ^ m / (1 / 2 ^ n)" using assms q by (intro frac_le) simp_all
  then show ?thesis by (simp add: power_add)
qed

lemma abs_add_le:
  fixes p q :: real
  assumes "\<bar>p\<bar> \<le> 2 ^ m" and "\<bar>q\<bar> \<le> 2 ^ n" and "m \<le> k" and "n \<le> k"
  shows "\<bar>p + q\<bar> \<le> 2 ^ (k + 1)"
proof -
  have "(2::real) ^ m \<le> 2 ^ k" "(2::real) ^ n \<le> 2 ^ k"
    using assms(3,4) by (simp_all add: power_increasing)
  with assms(1,2) have "\<bar>p + q\<bar> \<le> 2 * 2 ^ k" by linarith
  then show ?thesis by simp
qed

lemma dadd_Finite:
  assumes "dadd a b = Finite r"
  obtains x y where "a = Finite x" and "b = Finite y" and "fl (x + y) = Finite r"
  using assms by (cases a; cases b) simp_all

lemma dsub_Finite:
  assumes "dsub a b = Finite r"
  obtains x y where "a = Finite x" and "b = Finite y" and "fl (x - y) = Finite r"
  using assms by (cases a; cases b) (simp_all add: dsub_def)

lemma dmul_Finite:
  assumes "dmul a b = Finite r"
  obtains x y where "a = Finite x" and "b = Finite y" and "fl (x * y) = Finite r"
  using assms by (cases a; cases b) (simp_all add: signed_inf_def split: if_splits)

lemma ddiv_Finite:
  assumes "ddiv a (Finite y) = Finite r"
  obtains x where "a = Finite x" and "y \<noteq> 0" and "fl (x / y) = Finite r"
  using assms by (cases a) (simp_all add: signed_inf_def split: if_splits)

text \<open>
  Propagation of the rounding errors through the eight operations of a round trip,
  each with relative error \<open>2 ^ - 53\<close> and absolute error \<open>h\<close>.
\<close>

lemma err_div:
  fixes t y D U h :: real
  assumes "D \<noteq> 0" and "\<bar>t - y\<bar> \<le> U * \<bar>y\<bar> + h"
  shows "\<bar>t / D - y / D\<bar> \<le> U * \<bar>y / D\<bar> + h / \<bar>D\<bar>"
proof -
  have "\<bar>t / D - y / D\<bar> = \<bar>t - y\<bar> / \<bar>D\<bar>"
    by (simp add: diff_divide_distrib [symmetric])
  also have "\<dots> \<le> (U * \<bar>y\<bar> + h) / \<bar>D\<bar>"
    using assms by (intro divide_right_mono) simp_all
  also have "\<dots> = U * \<bar>y / D\<bar> + h / \<bar>D\<bar>"
    by (simp add: add_divide_distrib)
  finally show ?thesis .
qed

lemma err_mult:
  fixes z y d U h :: real
  assumes "d \<noteq> 0" and "\<bar>z - y / d\<bar> \<le> U * \<bar>y / d\<bar> + h"
  shows "\<bar>z * d - y\<bar> \<le> U * \<bar>y\<bar> + h * \<bar>d\<bar>"
proof -
  have "z * d - y = (z - y / d) * d" using assms(1) by (simp add: algebra_simps)
  then have "\<bar>z * d - y\<bar> = \<bar>z - y / d\<bar> * \<bar>d\<bar>" by (simp add: abs_mult)
  also have "\<dots> \<le> (U * \<bar>y / d\<bar> + h) * \<bar>d\<bar>"
    using assms(2) by (intro mult_right_mono) simp_all
  also have "\<dots> = U * \<bar>y\<bar> + h * \<bar>d\<bar>"
    using assms(1) by (simp add: algebra_simps)
  finally show ?thesis .
qed

lemma tri: fixes p q c :: real shows "\<bar>p - c\<bar> \<le> \<bar>p - q\<bar> + \<bar>q - c\<bar>"
  by linarith

lemma mag: fixes p c :: real shows "\<bar>p\<bar> \<le> \<bar>c\<bar> + \<bar>p - c\<bar>"
  by linarith

lemma err_step:
  fixes U :: real
  assumes "0 \<le> U" and "P \<le> U * M + H" and "M \<le> N" and "E \<le> P + F"
  shows "E \<le> U * N + H + F"
proof -
  from assms(3,1) have "U * M \<le> U * N" by (rule mult_left_mono)
  with assms(2,4) show ?thesis by linarith
qed

lemma round_trip_core:
  fixes x a b D d h :: real
  assumes D: "D \<noteq> 0" and d: "d \<noteq> 0" and h: "0 \<le> h" "h \<le> 1"
    and e1: "\<bar>t1 - (x - 1 / 2)\<bar> \<le> \<bar>x - 1 / 2\<bar> / 2 ^ 53 + h"
    and e2: "\<bar>t2 - t1 * D\<bar> \<le> \<bar>t1 * D\<bar> / 2 ^ 53 + h"
    and e3: "\<bar>t3 - (t2 - a)\<bar> \<le> \<bar>t2 - a\<bar> / 2 ^ 53 + h"
    and ed: "\<bar>d - (b - a)\<bar> \<le> \<bar>b - a\<bar> / 2 ^ 53 + h"
    and e4: "\<bar>z - t3 / d\<bar> \<le> \<bar>t3 / d\<bar> / 2 ^ 53 + h"
    and e5: "\<bar>t4 - z * d\<bar> \<le> \<bar>z * d\<bar> / 2 ^ 53 + h"
    and e6: "\<bar>t5 - (a + t4)\<bar> \<le> \<bar>a + t4\<bar> / 2 ^ 53 + h"
    and e7: "\<bar>t6 - t5 / D\<bar> \<le> \<bar>t5 / D\<bar> / 2 ^ 53 + h"
    and e8: "\<bar>r - (1 / 2 + t6)\<bar> \<le> \<bar>1 / 2 + t6\<bar> / 2 ^ 53 + h"
  shows "\<bar>r - x\<bar> \<le> (\<bar>x\<bar> + \<bar>x - 1 / 2\<bar> + \<bar>a / D\<bar>) / 2 ^ 50
                   + (1 + (1 + \<bar>b - a\<bar>) / \<bar>D\<bar>) * (32 * h)"
proof -
  define U :: real where "U = 1 / 2 ^ 53"
  define c where "c = x - 1 / 2"
  define w where "w = c - a / D"
  define X where "X = \<bar>c\<bar>"
  define A where "A = \<bar>a / D\<bar>"
  define W where "W = \<bar>w\<bar>"
  define H where "H = h / \<bar>D\<bar>"
  define B where "B = h * \<bar>b - a\<bar> / \<bar>D\<bar>"
  define G where "G = h * \<bar>d\<bar> / \<bar>D\<bar>"
  define s2 where "s2 = t2 / D"
  define s3 where "s3 = t3 / D"
  define p where "p = z * d / D"
  define s4 where "s4 = t4 / D"
  define s5 where "s5 = t5 / D"
  have U: "0 \<le> U" by (simp add: U_def)
  have Dpos: "0 < \<bar>D\<bar>" using D by simp
  have nn: "0 \<le> X" "0 \<le> A" "0 \<le> W" "0 \<le> H" "0 \<le> B" "0 \<le> G"
    using h Dpos by (simp_all add: X_def A_def W_def H_def B_def G_def)
  have WXA: "W \<le> X + A" unfolding W_def w_def X_def A_def by linarith
  have "\<bar>d\<bar> \<le> \<bar>b - a\<bar> + \<bar>d - (b - a)\<bar>" by (rule mag)
  also have "\<dots> \<le> \<bar>b - a\<bar> + (\<bar>b - a\<bar> / 2 ^ 53 + h)" using ed by simp
  also have "\<dots> \<le> 2 * \<bar>b - a\<bar> + h" by simp
  finally have "h * \<bar>d\<bar> \<le> h * (2 * \<bar>b - a\<bar> + h)" using h(1) by (rule mult_left_mono)
  also have "\<dots> = 2 * (h * \<bar>b - a\<bar>) + h * h" by (simp add: algebra_simps)
  also have "h * h \<le> h * 1" using h by (intro mult_left_mono) simp_all
  finally have "h * \<bar>d\<bar> \<le> 2 * (h * \<bar>b - a\<bar>) + h" by simp
  then have "h * \<bar>d\<bar> / \<bar>D\<bar> \<le> (2 * (h * \<bar>b - a\<bar>) + h) / \<bar>D\<bar>"
    using Dpos by (intro divide_right_mono) simp_all
  then have GB: "G \<le> 2 * B + H"
    by (simp add: G_def B_def H_def add_divide_distrib)
  define E1 where "E1 = \<bar>t1 - c\<bar>"
  define E2 where "E2 = \<bar>s2 - c\<bar>"
  define E3 where "E3 = \<bar>s3 - w\<bar>"
  define Ep where "Ep = \<bar>p - w\<bar>"
  define E4 where "E4 = \<bar>s4 - w\<bar>"
  define E5 where "E5 = \<bar>s5 - c\<bar>"
  define E6 where "E6 = \<bar>t6 - c\<bar>"
  define E8 where "E8 = \<bar>r - x\<bar>"
  have b1: "E1 \<le> U * X + h"
    using e1 by (simp add: E1_def c_def X_def U_def)
  have "\<bar>t2 / D - t1 * D / D\<bar> \<le> U * \<bar>t1 * D / D\<bar> + h / \<bar>D\<bar>"
    using D e2 by (intro err_div) (simp_all add: U_def)
  then have "\<bar>s2 - t1\<bar> \<le> U * \<bar>t1\<bar> + H" using D by (simp add: s2_def H_def)
  moreover have "\<bar>t1\<bar> \<le> X + E1" unfolding X_def E1_def by (rule mag)
  moreover have "E2 \<le> \<bar>s2 - t1\<bar> + E1" unfolding E2_def E1_def by (rule tri)
  ultimately have b2: "E2 \<le> U * (X + E1) + H + E1"
    by (rule err_step [OF U])
  have "\<bar>t3 / D - (t2 - a) / D\<bar> \<le> U * \<bar>(t2 - a) / D\<bar> + h / \<bar>D\<bar>"
    using D e3 by (intro err_div) (simp_all add: U_def)
  then have "\<bar>s3 - (s2 - a / D)\<bar> \<le> U * \<bar>s2 - a / D\<bar> + H"
    by (simp add: s3_def s2_def H_def diff_divide_distrib)
  moreover have "\<bar>s2 - a / D\<bar> \<le> W + E2"
    unfolding W_def E2_def w_def by linarith
  moreover have "E3 \<le> \<bar>s3 - (s2 - a / D)\<bar> + E2"
    unfolding E3_def E2_def w_def by linarith
  ultimately have b3: "E3 \<le> U * (W + E2) + H + E2"
    by (rule err_step [OF U])
  have "\<bar>z * d - t3\<bar> \<le> U * \<bar>t3\<bar> + h * \<bar>d\<bar>"
    using d e4 by (intro err_mult) (simp_all add: U_def)
  then have "\<bar>z * d / D - t3 / D\<bar> \<le> U * \<bar>t3 / D\<bar> + h * \<bar>d\<bar> / \<bar>D\<bar>"
    using D by (intro err_div) simp_all
  then have "\<bar>p - s3\<bar> \<le> U * \<bar>s3\<bar> + G" by (simp add: p_def s3_def G_def)
  moreover have "\<bar>s3\<bar> \<le> W + E3" unfolding W_def E3_def by (rule mag)
  moreover have "Ep \<le> \<bar>p - s3\<bar> + E3" unfolding Ep_def E3_def by (rule tri)
  ultimately have bp: "Ep \<le> U * (W + E3) + G + E3"
    by (rule err_step [OF U])
  have "\<bar>t4 / D - z * d / D\<bar> \<le> U * \<bar>z * d / D\<bar> + h / \<bar>D\<bar>"
    using D e5 by (intro err_div) (simp_all add: U_def)
  then have "\<bar>s4 - p\<bar> \<le> U * \<bar>p\<bar> + H" by (simp add: p_def s4_def H_def)
  moreover have "\<bar>p\<bar> \<le> W + Ep" unfolding W_def Ep_def by (rule mag)
  moreover have "E4 \<le> \<bar>s4 - p\<bar> + Ep" unfolding E4_def Ep_def by (rule tri)
  ultimately have b4: "E4 \<le> U * (W + Ep) + H + Ep"
    by (rule err_step [OF U])
  have "\<bar>t5 / D - (a + t4) / D\<bar> \<le> U * \<bar>(a + t4) / D\<bar> + h / \<bar>D\<bar>"
    using D e6 by (intro err_div) (simp_all add: U_def)
  then have "\<bar>s5 - (a / D + s4)\<bar> \<le> U * \<bar>a / D + s4\<bar> + H"
    by (simp add: s5_def s4_def H_def add_divide_distrib)
  moreover have "\<bar>a / D + s4\<bar> \<le> X + E4"
    unfolding X_def E4_def w_def by linarith
  moreover have "E5 \<le> \<bar>s5 - (a / D + s4)\<bar> + E4"
    unfolding E5_def E4_def w_def by linarith
  ultimately have b5: "E5 \<le> U * (X + E4) + H + E4"
    by (rule err_step [OF U])
  have "\<bar>t6 - s5\<bar> \<le> U * \<bar>s5\<bar> + h" using e7 by (simp add: s5_def U_def)
  moreover have "\<bar>s5\<bar> \<le> X + E5" unfolding X_def E5_def by (rule mag)
  moreover have "E6 \<le> \<bar>t6 - s5\<bar> + E5" unfolding E6_def E5_def by (rule tri)
  ultimately have b6: "E6 \<le> U * (X + E5) + h + E5"
    by (rule err_step [OF U])
  have "\<bar>r - (1 / 2 + t6)\<bar> \<le> U * \<bar>1 / 2 + t6\<bar> + h" using e8 by (simp add: U_def)
  moreover have "\<bar>1 / 2 + t6\<bar> \<le> \<bar>x\<bar> + E6" unfolding E6_def c_def by linarith
  moreover have "E8 \<le> \<bar>r - (1 / 2 + t6)\<bar> + E6" unfolding E8_def E6_def c_def by linarith
  ultimately have b8: "E8 \<le> U * (\<bar>x\<bar> + E6) + h + E6"
    by (rule err_step [OF U])
  have Un: "U = 1 / 9007199254740992" by (simp add: U_def)
  have c1: "E1 \<le> U * X + h" by (rule b1)
  have c2: "E2 \<le> 21 / 10 * U * X + 2 * h + H"
    using b2 c1 nn h unfolding Un by argo
  have c3: "E3 \<le> 32 / 10 * U * X + 11 / 10 * U * A + 3 * h + 3 * H"
    using b3 c2 WXA nn h unfolding Un by argo
  have cp: "Ep \<le> 43 / 10 * U * X + 22 / 10 * U * A + 4 * h + 4 * H + G"
    using bp c3 WXA nn h unfolding Un by argo
  have c4: "E4 \<le> 54 / 10 * U * X + 33 / 10 * U * A + 5 * h + 6 * H + 2 * G"
    using b4 cp WXA nn h unfolding Un by argo
  have c5: "E5 \<le> 65 / 10 * U * X + 34 / 10 * U * A + 6 * h + 8 * H + 3 * G"
    using b5 c4 WXA nn h unfolding Un by argo
  have c6: "E6 \<le> 76 / 10 * U * X + 35 / 10 * U * A + 8 * h + 9 * H + 4 * G"
    using b6 c5 WXA nn h unfolding Un by argo
  have c8: "E8 \<le> U * \<bar>x\<bar> + 77 / 10 * U * X + 36 / 10 * U * A + 10 * h + 10 * H + 5 * G"
    using b8 c6 WXA nn h unfolding Un by argo
  have "E8 \<le> 8 * U * (\<bar>x\<bar> + X + A) + (32 * h + 32 * H + 32 * B)"
    using c8 GB nn h unfolding Un by argo
  moreover have "8 * U * (\<bar>x\<bar> + X + A) = (\<bar>x\<bar> + \<bar>x - 1 / 2\<bar> + \<bar>a / D\<bar>) / 2 ^ 50"
    by (simp add: U_def X_def A_def c_def)
  moreover have "32 * h + 32 * H + 32 * B = (1 + (1 + \<bar>b - a\<bar>) / \<bar>D\<bar>) * (32 * h)"
    by (simp add: H_def B_def algebra_simps add_divide_distrib)
  ultimately show ?thesis by (simp add: E8_def)
qed

subsection \<open>Zoom mapping\<close>

lemma affine_round_trip:
  fixes a b d x :: real
  assumes "d \<noteq> 0" and "a \<noteq> b"
  shows "1 / 2 + (a + ((x - 1 / 2) * d - a) / (b - a) * (b - a)) / d = x"
proof -
  from assms have "((x - 1 / 2) * d - a) / (b - a) * (b - a) = (x - 1 / 2) * d - a"
    by simp
  then have "1 / 2 + (a + ((x - 1 / 2) * d - a) / (b - a) * (b - a)) / d
      = 1 / 2 + ((x - 1 / 2) * d) / d"
    by simp
  also from assms have "\<dots> = x" by simp
  finally show ?thesis .
qed

text \<open>
  In exact arithmetic the two formulas are inverse to each other: for distinct
  markers and a nonzero \<^verbatim>\<open>DIVS_TIME\<close>, \<open>zoomToMain\<close> maps the value of \<open>mainToZoom\<close> at
  \<open>x\<close> to \<open>x\<close>.
\<close>

lemma zoom_round_trip_exact:
  assumes "DIVS_TIME c \<noteq> 0" and "getMarker sc 0 \<noteq> getMarker sc 1"
  shows "\<exists>z. mainToZoom c sc x = Inr z \<and> zoomToMain c sc z = Inr x"
proof (cases "getMarker sc 0 > getMarker sc 1")
  case True
  with assms show ?thesis
    using affine_round_trip [of "DIVS_TIME c" "getMarker sc 1" "getMarker sc 0" x]
    by (simp add: mainToZoom_def zoomToMain_def fdiv_def Let_def)
next
  case False
  with assms show ?thesis
    using affine_round_trip [of "DIVS_TIME c" "getMarker sc 0" "getMarker sc 1" x]
    by (simp add: mainToZoom_def zoomToMain_def fdiv_def Let_def)
qed

text \<open>
  The round trip in binary64 arithmetic, for markers \<open>a\<close> and \<open>b\<close> in this order: a
  finite result is the outcome of eight roundings of finite values, with nonzero
  divisors, and differs from \<open>x\<close> by the accumulated rounding error.
\<close>

lemma round_trip_double:
  assumes "dadd (Finite (1 / 2))
             (ddiv (dadd (Finite a)
                      (dmul (ddiv (dsub (dmul (dsub (Finite x) (Finite (1 / 2))) (Finite D)) (Finite a))
                                  (dsub (Finite b) (Finite a)))
                            (dsub (Finite b) (Finite a))))
                   (Finite D)) = Finite r"
  shows "\<bar>r - x\<bar> \<le> (\<bar>x\<bar> + \<bar>x - 1 / 2\<bar> + \<bar>a / D\<bar>) / 2 ^ 50
                   + (1 + (1 + \<bar>b - a\<bar>) / \<bar>D\<bar>) / 2 ^ 1070"
proof -
  define h where "h = pow2 (emin - 53)"
  from assms obtain half t6 where h8: "Finite (1 / 2) = Finite half"
    and q6: "ddiv (dadd (Finite a)
                      (dmul (ddiv (dsub (dmul (dsub (Finite x) (Finite (1 / 2))) (Finite D)) (Finite a))
                                  (dsub (Finite b) (Finite a)))
                            (dsub (Finite b) (Finite a))))
                   (Finite D) = Finite t6"
    and f8: "fl (half + t6) = Finite r"
    by (rule dadd_Finite)
  from q6 obtain t5 where q5: "dadd (Finite a)
                      (dmul (ddiv (dsub (dmul (dsub (Finite x) (Finite (1 / 2))) (Finite D)) (Finite a))
                                  (dsub (Finite b) (Finite a)))
                            (dsub (Finite b) (Finite a))) = Finite t5"
    and D: "D \<noteq> 0" and f7: "fl (t5 / D) = Finite t6"
    by (rule ddiv_Finite)
  from q5 obtain a' t4 where h6: "Finite a = Finite a'"
    and q4: "dmul (ddiv (dsub (dmul (dsub (Finite x) (Finite (1 / 2))) (Finite D)) (Finite a))
                        (dsub (Finite b) (Finite a)))
                  (dsub (Finite b) (Finite a)) = Finite t4"
    and f6: "fl (a' + t4) = Finite t5"
    by (rule dadd_Finite)
  from q4 obtain z d where qz: "ddiv (dsub (dmul (dsub (Finite x) (Finite (1 / 2))) (Finite D)) (Finite a))
                        (dsub (Finite b) (Finite a)) = Finite z"
    and qd: "dsub (Finite b) (Finite a) = Finite d" and f5: "fl (z * d) = Finite t4"
    by (rule dmul_Finite)
  from qd have fd: "fl (b - a) = Finite d" by (simp add: dsub_def)
  from qz qd have "ddiv (dsub (dmul (dsub (Finite x) (Finite (1 / 2))) (Finite D)) (Finite a))
                        (Finite d) = Finite z" by simp
  then obtain t3 where q3: "dsub (dmul (dsub (Finite x) (Finite (1 / 2))) (Finite D)) (Finite a) = Finite t3"
    and d: "d \<noteq> 0" and f4: "fl (t3 / d) = Finite z"
    by (rule ddiv_Finite)
  from q3 obtain t2 a'' where q2: "dmul (dsub (Finite x) (Finite (1 / 2))) (Finite D) = Finite t2"
    and h3: "Finite a = Finite a''" and f3: "fl (t2 - a'') = Finite t3"
    by (rule dsub_Finite)
  from q2 obtain t1 D' where q1: "dsub (Finite x) (Finite (1 / 2)) = Finite t1"
    and h2: "Finite D = Finite D'" and f2: "fl (t1 * D') = Finite t2"
    by (rule dmul_Finite)
  from q1 have f1: "fl (x - 1 / 2) = Finite t1" by (simp add: dsub_def)
  from h8 h6 h3 h2 have eqs: "half = 1 / 2" "a' = a" "a'' = a" "D' = D" by simp_all
  have h0: "0 \<le> h" using pow2_pos [of "emin - 53"] by (simp add: h_def)
  have "pow2 (emin - 53) \<le> pow2 0" by (intro pow2_mono) (simp add: emin_def)
  then have h1: "h \<le> 1" by (simp add: h_def pow2_def)
  have "\<bar>r - x\<bar> \<le> (\<bar>x\<bar> + \<bar>x - 1 / 2\<bar> + \<bar>a / D\<bar>) / 2 ^ 50
                   + (1 + (1 + \<bar>b - a\<bar>) / \<bar>D\<bar>) * (32 * h)"
    using D d h0 h1
  proof (rule round_trip_core)
    show "\<bar>t1 - (x - 1 / 2)\<bar> \<le> \<bar>x - 1 / 2\<bar> / 2 ^ 53 + h"
      unfolding h_def using f1 by (rule fl_error)
    show "\<bar>t2 - t1 * D\<bar> \<le> \<bar>t1 * D\<bar> / 2 ^ 53 + h"
      unfolding h_def using f2 unfolding eqs by (rule fl_error)
    show "\<bar>t3 - (t2 - a)\<bar> \<le> \<bar>t2 - a\<bar> / 2 ^ 53 + h"
      unfolding h_def using f3 unfolding eqs by (rule fl_error)
    show "\<bar>d - (b - a)\<bar> \<le> \<bar>b - a\<bar> / 2 ^ 53 + h"
      unfolding h_def using fd by (rule fl_error)
    show "\<bar>z - t3 / d\<bar> \<le> \<bar>t3 / d\<bar> / 2 ^ 53 + h"
      unfolding h_def using f4 by (rule fl_error)
    show "\<bar>t4 - z * d\<bar> \<le> \<bar>z * d\<bar> / 2 ^ 53 + h"
      unfolding h_def using f5 by (rule fl_error)
    show "\<bar>t5 - (a + t4)\<bar> \<le> \<bar>a + t4\<bar> / 2 ^ 53 + h"
      unfolding h_def using f6 unfolding eqs by (rule fl_error)
    show "\<bar>t6 - t5 / D\<bar> \<le> \<bar>t5 / D\<bar> / 2 ^ 53 + h"
      unfolding h_def using f7 by (rule fl_error)
    show "\<bar>r - (1 / 2 + t6)\<bar> \<le> \<bar>1 / 2 + t6\<bar> / 2 ^ 53 + h"
      unfolding h_def using f8 unfolding eqs by (rule fl_error)
  qed
  moreover have "32 * h = 1 / 2 ^ 1070" by (simp add: h_def pow2_def emin_def)
  ultimately show ?thesis by simp
qed

text \<open>
  No operation of the round trip overflows, and no divisor is zero, when the
  position, the markers and the grid size are at most \<open>2 ^ 64\<close> in magnitude and the
  distance of the markers and the grid size are at least \<open>2 ^ - 64\<close>.
\<close>

lemma round_trip_finite:
  assumes x: "\<bar>x\<bar> \<le> 2 ^ 64" and a: "\<bar>a\<bar> \<le> 2 ^ 64" and b: "\<bar>b\<bar> \<le> 2 ^ 64"
    and ba: "1 / 2 ^ 64 \<le> \<bar>b - a\<bar>" and D1: "1 / 2 ^ 64 \<le> \<bar>D\<bar>" and D2: "\<bar>D\<bar> \<le> 2 ^ 64"
  shows "\<exists>r. dadd (Finite (1 / 2))
             (ddiv (dadd (Finite a)
                      (dmul (ddiv (dsub (dmul (dsub (Finite x) (Finite (1 / 2))) (Finite D)) (Finite a))
                                  (dsub (Finite b) (Finite a)))
                            (dsub (Finite b) (Finite a))))
                   (Finite D)) = Finite r"
proof -
  have half: "\<bar>1 / 2 :: real\<bar> \<le> 2 ^ 0" "\<bar>- (1 / 2) :: real\<bar> \<le> 2 ^ 0" by simp_all
  have ma: "\<bar>- a\<bar> \<le> 2 ^ 64" using a by simp
  have "\<bar>x + - (1 / 2)\<bar> \<le> 2 ^ (64 + 1)" using x half(2) by (rule abs_add_le) simp_all
  then obtain t1 where t1: "fl (x - 1 / 2) = Finite t1" "\<bar>t1\<bar> \<le> 2 ^ (65 + 2)"
    using fl_finite [of "x - 1 / 2" 65] by auto
  from t1(2) D2 have "\<bar>t1 * D\<bar> \<le> 2 ^ (65 + 2 + 64)" by (rule abs_mult_le)
  then obtain t2 where t2: "fl (t1 * D) = Finite t2" "\<bar>t2\<bar> \<le> 2 ^ (131 + 2)"
    using fl_finite [of "t1 * D" 131] by auto
  have "\<bar>t2 + - a\<bar> \<le> 2 ^ (133 + 1)" using t2(2) ma by (rule abs_add_le) simp_all
  then obtain t3 where t3: "fl (t2 - a) = Finite t3" "\<bar>t3\<bar> \<le> 2 ^ (134 + 2)"
    using fl_finite [of "t2 - a" 134] by auto
  have "\<bar>b + - a\<bar> \<le> 2 ^ (64 + 1)" using b ma by (rule abs_add_le) simp_all
  then obtain d where d: "fl (b - a) = Finite d" "\<bar>d\<bar> \<le> 2 ^ (65 + 2)"
    using fl_finite [of "b - a" 65] by auto
  define W where "W = \<bar>b - a\<bar>"
  define E where "E = \<bar>d - (b - a)\<bar>"
  define h where "h = pow2 (emin - 53)"
  from d(1) have "\<bar>d - (b - a)\<bar> \<le> \<bar>b - a\<bar> / 2 ^ 53 + pow2 (emin - 53)" by (rule fl_error)
  then have f1: "E \<le> W / 9007199254740992 + h" by (simp add: E_def W_def h_def)
  have f2: "h \<le> 1 / 147573952589676412928" by (simp add: h_def pow2_def emin_def)
  from ba have f3: "1 / 18446744073709551616 \<le> W" by (simp add: W_def)
  have f4: "W - E \<le> \<bar>d\<bar>" unfolding W_def E_def by linarith
  from f1 f2 f3 f4 have "1 / 36893488147419103232 \<le> \<bar>d\<bar>" by argo
  then have dlow: "1 / 2 ^ 65 \<le> \<bar>d\<bar>" by simp
  then have d0: "d \<noteq> 0" by auto
  from t3(2) dlow have "\<bar>t3 / d\<bar> \<le> 2 ^ (134 + 2 + 65)" by (rule abs_divide_le)
  then obtain z where z: "fl (t3 / d) = Finite z" "\<bar>z\<bar> \<le> 2 ^ (201 + 2)"
    using fl_finite [of "t3 / d" 201] by auto
  from z(2) d(2) have "\<bar>z * d\<bar> \<le> 2 ^ (201 + 2 + (65 + 2))" by (rule abs_mult_le)
  then obtain t4 where t4: "fl (z * d) = Finite t4" "\<bar>t4\<bar> \<le> 2 ^ (270 + 2)"
    using fl_finite [of "z * d" 270] by auto
  have "\<bar>a + t4\<bar> \<le> 2 ^ (272 + 1)" using a t4(2) by (rule abs_add_le) simp_all
  then obtain t5 where t5: "fl (a + t4) = Finite t5" "\<bar>t5\<bar> \<le> 2 ^ (273 + 2)"
    using fl_finite [of "a + t4" 273] by auto
  from t5(2) D1 have "\<bar>t5 / D\<bar> \<le> 2 ^ (273 + 2 + 64)" by (rule abs_divide_le)
  then obtain t6 where t6: "fl (t5 / D) = Finite t6" "\<bar>t6\<bar> \<le> 2 ^ (339 + 2)"
    using fl_finite [of "t5 / D" 339] by auto
  have "\<bar>1 / 2 + t6\<bar> \<le> 2 ^ (341 + 1)" using half(1) t6(2) by (rule abs_add_le) simp_all
  then obtain r where r: "fl (1 / 2 + t6) = Finite r"
    using fl_finite [of "1 / 2 + t6" 342] by auto
  from D1 have D0: "D \<noteq> 0" by auto
  from t1(1) t2(1) t3(1) d(1) d0 z(1) t4(1) t5(1) D0 t6(1) r show ?thesis
    by (simp add: dsub_def)
qed

text \<open>
  The round trip of the example: position \<open>0.1\<close> (the double nearest to it), markers
  at 2 and - 1, ten divisions. The nine roundings, then both functions.
\<close>

lemma example_roundings:
  "fl (3602879701896397 / 36028797018963968 - 1 / 2) = Finite (- 3602879701896397 / 9007199254740992)"
  "fl (- 3602879701896397 / 9007199254740992 * 10) = Finite (- 4)"
  "fl (- 4 - (- 1)) = Finite (- 3)"
  "fl (2 - (- 1)) = Finite 3"
  "fl (- 3 / 3) = Finite (- 1)"
  "fl (- 1 * 3) = Finite (- 3)"
  "fl (- 1 + - 3) = Finite (- 4)"
  "fl (- 4 / 10) = Finite (- 3602879701896397 / 9007199254740992)"
  "fl (1 / 2 + - 3602879701896397 / 9007199254740992) = Finite (900719925474099 / 9007199254740992)"
proof -
  show "fl (3602879701896397 / 36028797018963968 - 1 / 2) = Finite (- 3602879701896397 / 9007199254740992)"
    by (rule fl_evalI [where e = "- 2" and k = "- 7205759403792794"]) (simp_all add: fl_eval_defs)
  show "fl (- 3602879701896397 / 9007199254740992 * 10) = Finite (- 4)"
    by (rule fl_evalI [where e = 2 and k = "- 4503599627370496"]) (simp_all add: fl_eval_defs)
  show "fl (- 4 - (- 1)) = Finite (- 3)"
    by (rule fl_evalI [where e = 1 and k = "- 6755399441055744"]) (simp_all add: fl_eval_defs)
  show "fl (2 - (- 1)) = Finite 3"
    by (rule fl_evalI [where e = 1 and k = "6755399441055744"]) (simp_all add: fl_eval_defs)
  show "fl (- 3 / 3) = Finite (- 1)"
    by (rule fl_evalI [where e = 0 and k = "- 4503599627370496"]) (simp_all add: fl_eval_defs)
  show "fl (- 1 * 3) = Finite (- 3)"
    by (rule fl_evalI [where e = 1 and k = "- 6755399441055744"]) (simp_all add: fl_eval_defs)
  show "fl (- 1 + - 3) = Finite (- 4)"
    by (rule fl_evalI [where e = 2 and k = "- 4503599627370496"]) (simp_all add: fl_eval_defs)
  show "fl (- 4 / 10) = Finite (- 3602879701896397 / 9007199254740992)"
    by (rule fl_evalI [where e = "- 2" and k = "- 7205759403792794"]) (simp_all add: fl_eval_defs)
  show "fl (1 / 2 + - 3602879701896397 / 9007199254740992) = Finite (900719925474099 / 9007199254740992)"
    by (rule fl_evalI [where e = "- 4" and k = "7205759403792792"]) (simp_all add: fl_eval_defs)
qed

lemma example_mainToZoom:
  "mainToZoom_double example_constants (example_scope 2 (- 1))
     (Finite (3602879701896397 / 36028797018963968)) = Finite (- 1)"
  using example_roundings
  by (simp add: mainToZoom_double_def example_constants_def example_scope_def getMarker_def dsub_def)

lemma example_zoomToMain:
  "zoomToMain_double example_constants (example_scope 2 (- 1)) (Finite (- 1))
     = Finite (900719925474099 / 9007199254740992)"
  using example_roundings
  by (simp add: zoomToMain_double_def example_constants_def example_scope_def getMarker_def dsub_def)

lemma zoom_round_trip_bound:
  assumes "zoomToMain_double c sc (mainToZoom_double c sc (Finite x)) = Finite r"
  shows "\<bar>r - x\<bar> \<le> (\<bar>x\<bar> + \<bar>x - 1 / 2\<bar> + \<bar>min (getMarker sc 0) (getMarker sc 1) / DIVS_TIME c\<bar>) / 2 ^ 50
                   + (1 + (1 + \<bar>getMarker sc 1 - getMarker sc 0\<bar>) / \<bar>DIVS_TIME c\<bar>) / 2 ^ 1070"
proof (cases "getMarker sc 0 > getMarker sc 1")
  case True
  with assms have "dadd (Finite (1 / 2))
             (ddiv (dadd (Finite (getMarker sc 1))
                      (dmul (ddiv (dsub (dmul (dsub (Finite x) (Finite (1 / 2))) (Finite (DIVS_TIME c)))
                                        (Finite (getMarker sc 1)))
                                  (dsub (Finite (getMarker sc 0)) (Finite (getMarker sc 1))))
                            (dsub (Finite (getMarker sc 0)) (Finite (getMarker sc 1)))))
                   (Finite (DIVS_TIME c))) = Finite r"
    by (simp add: mainToZoom_double_def zoomToMain_double_def Let_def)
  then have "\<bar>r - x\<bar> \<le> (\<bar>x\<bar> + \<bar>x - 1 / 2\<bar> + \<bar>getMarker sc 1 / DIVS_TIME c\<bar>) / 2 ^ 50
                   + (1 + (1 + \<bar>getMarker sc 0 - getMarker sc 1\<bar>) / \<bar>DIVS_TIME c\<bar>) / 2 ^ 1070"
    by (rule round_trip_double)
  moreover from True have "min (getMarker sc 0) (getMarker sc 1) = getMarker sc 1" by simp
  moreover have "\<bar>getMarker sc 1 - getMarker sc 0\<bar> = \<bar>getMarker sc 0 - getMarker sc 1\<bar>"
    by (rule abs_minus_commute)
  ultimately show ?thesis by (simp only:)
next
  case False
  with assms have "dadd (Finite (1 / 2))
             (ddiv (dadd (Finite (getMarker sc 0))
                      (dmul (ddiv (dsub (dmul (dsub (Finite x) (Finite (1 / 2))) (Finite (DIVS_TIME c)))
                                        (Finite (getMarker sc 0)))
                                  (dsub (Finite (getMarker sc 1)) (Finite (getMarker sc 0))))
                            (dsub (Finite (getMarker sc 1)) (Finite (getMarker sc 0)))))
                   (Finite (DIVS_TIME c))) = Finite r"
    by (simp add: mainToZoom_double_def zoomToMain_double_def Let_def)
  then have "\<bar>r - x\<bar> \<le> (\<bar>x\<bar> + \<bar>x - 1 / 2\<bar> + \<bar>getMarker sc 0 / DIVS_TIME c\<bar>) / 2 ^ 50
                   + (1 + (1 + \<bar>getMarker sc 1 - getMarker sc 0\<bar>) / \<bar>DIVS_TIME c\<bar>) / 2 ^ 1070"
    by (rule round_trip_double)
  moreover from False have "min (getMarker sc 0) (getMarker sc 1) = getMarker sc 0" by simp
  ultimately show ?thesis by (simp only:)
qed

lemma zoom_round_trip_finite:
  assumes x: "\<bar>x\<bar> \<le> 2 ^ 64" and m0: "\<bar>getMarker sc 0\<bar> \<le> 2 ^ 64" and m1: "\<bar>getMarker sc 1\<bar> \<le> 2 ^ 64"
    and w: "1 / 2 ^ 64 \<le> \<bar>getMarker sc 1 - getMarker sc 0\<bar>"
    and D1: "1 / 2 ^ 64 \<le> \<bar>DIVS_TIME c\<bar>" and D2: "\<bar>DIVS_TIME c\<bar> \<le> 2 ^ 64"
  shows "\<exists>r. zoomToMain_double c sc (mainToZoom_double c sc (Finite x)) = Finite r"
proof (cases "getMarker sc 0 > getMarker sc 1")
  case True
  from w have "1 / 2 ^ 64 \<le> \<bar>getMarker sc 0 - getMarker sc 1\<bar>"
    by (simp only: abs_minus_commute)
  with x m1 m0 have "\<exists>r. dadd (Finite (1 / 2))
             (ddiv (dadd (Finite (getMarker sc 1))
                      (dmul (ddiv (dsub (dmul (dsub (Finite x) (Finite (1 / 2))) (Finite (DIVS_TIME c)))
                                        (Finite (getMarker sc 1)))
                                  (dsub (Finite (getMarker sc 0)) (Finite (getMarker sc 1))))
                            (dsub (Finite (getMarker sc 0)) (Finite (getMarker sc 1)))))
                   (Finite (DIVS_TIME c))) = Finite r"
    using D1 D2 by (rule round_trip_finite)
  with True show ?thesis
    by (simp add: mainToZoom_double_def zoomToMain_double_def Let_def)
next
  case False
  from x m0 m1 w D1 D2 have "\<exists>r. dadd (Finite (1 / 2))
             (ddiv (dadd (Finite (getMarker sc 0))
                      (dmul (ddiv (dsub (dmul (dsub (Finite x) (Finite (1 / 2))) (Finite (DIVS_TIME c)))
                                        (Finite (getMarker sc 0)))
                                  (dsub (Finite (getMarker sc 1)) (Finite (getMarker sc 0))))
                            (dsub (Finite (getMarker sc 1)) (Finite (getMarker sc 0)))))
                   (Finite (DIVS_TIME c))) = Finite r"
    by (rule round_trip_finite)
  with False show ?thesis
    by (simp add: mainToZoom_double_def zoomToMain_double_def Let_def)
qed

text \<open>
  With coinciding markers the divisor of \<open>mainToZoom\<close> is zero and the result is not a
  finite value: an infinity, or a NaN when the dividend is zero too. The round trip
  is then a NaN.
\<close>

lemma mainToZoom_double_degenerate:
  assumes "getMarker sc 0 = getMarker sc 1"
  shows "mainToZoom_double c sc p \<noteq> Finite v"
proof
  assume "mainToZoom_double c sc p = Finite v"
  with assms have "ddiv (dsub (dmul (dsub p (Finite (1 / 2))) (Finite (DIVS_TIME c)))
                              (Finite (getMarker sc 1)))
                        (Finite 0) = Finite v"
    by (simp add: mainToZoom_double_def dsub_def fl_zero)
  then obtain t where "(0::real) \<noteq> 0" by (rule ddiv_Finite)
  then show False by simp
qed

lemma zoom_round_trip_degenerate:
  assumes "getMarker sc 0 = getMarker sc 1"
  shows "zoomToMain_double c sc (mainToZoom_double c sc p) = NaN"
proof -
  define q where "q = mainToZoom_double c sc p"
  have nf: "q \<noteq> Finite v" for v
    unfolding q_def using assms by (rule mainToZoom_double_degenerate)
  have "dmul q (Finite 0) = NaN"
  proof (cases q)
    case (Finite v)
    with nf [of v] show ?thesis by simp
  qed simp_all
  with assms show ?thesis
    unfolding q_def [symmetric] by (simp add: zoomToMain_double_def dsub_def fl_zero)
qed

text \<open>
  C1 (amended). For every main-view position \<open>x\<close> and every pair of time markers,
  mapping \<open>x\<close> into the zoom view and back in binary64 arithmetic returns \<open>x\<close> up to
  the rounding error of the eight operations, not \<open>x\<close> itself. A result that is a
  finite double \<open>r\<close> differs from \<open>x\<close> by at most \<open>2 ^ - 50\<close> times the sum of the
  magnitudes of \<open>x\<close>, of \<open>x - 1/2\<close> and of the smaller marker divided by
  \<^verbatim>\<open>DIVS_TIME\<close>, plus \<open>2 ^ - 1070\<close> times \<open>1 + (1 + \<bar>m2 - m1\<bar>) / \<bar>DIVS_TIME\<bar>\<close> for the
  operations rounded in the subnormal range. The result is a finite double whenever
  the position, the markers and \<^verbatim>\<open>DIVS_TIME\<close> are at most \<open>2 ^ 64\<close> in magnitude and
  the distance of the markers and \<^verbatim>\<open>DIVS_TIME\<close> are at least \<open>2 ^ - 64\<close> in magnitude;
  with coinciding markers it is a NaN. Both functions swap the markers
  when the first is the larger one.
\<close>

theorem zoom_round_trip_tolerance:
  "(zoomToMain_double c sc (mainToZoom_double c sc (Finite x)) = Finite r \<longrightarrow>
      \<bar>r - x\<bar> \<le> (\<bar>x\<bar> + \<bar>x - 1 / 2\<bar> + \<bar>min (getMarker sc 0) (getMarker sc 1) / DIVS_TIME c\<bar>) / 2 ^ 50
                 + (1 + (1 + \<bar>getMarker sc 1 - getMarker sc 0\<bar>) / \<bar>DIVS_TIME c\<bar>) / 2 ^ 1070) \<and>
   (\<bar>x\<bar> \<le> 2 ^ 64 \<and> \<bar>getMarker sc 0\<bar> \<le> 2 ^ 64 \<and> \<bar>getMarker sc 1\<bar> \<le> 2 ^ 64 \<and>
      1 / 2 ^ 64 \<le> \<bar>getMarker sc 1 - getMarker sc 0\<bar> \<and>
      1 / 2 ^ 64 \<le> \<bar>DIVS_TIME c\<bar> \<and> \<bar>DIVS_TIME c\<bar> \<le> 2 ^ 64 \<longrightarrow>
    (\<exists>r'. zoomToMain_double c sc (mainToZoom_double c sc (Finite x)) = Finite r'))"
proof (intro conjI impI)
  assume "zoomToMain_double c sc (mainToZoom_double c sc (Finite x)) = Finite r"
  then show "\<bar>r - x\<bar> \<le> (\<bar>x\<bar> + \<bar>x - 1 / 2\<bar> + \<bar>min (getMarker sc 0) (getMarker sc 1) / DIVS_TIME c\<bar>) / 2 ^ 50
                 + (1 + (1 + \<bar>getMarker sc 1 - getMarker sc 0\<bar>) / \<bar>DIVS_TIME c\<bar>) / 2 ^ 1070"
    by (rule zoom_round_trip_bound)
next
  assume "\<bar>x\<bar> \<le> 2 ^ 64 \<and> \<bar>getMarker sc 0\<bar> \<le> 2 ^ 64 \<and> \<bar>getMarker sc 1\<bar> \<le> 2 ^ 64 \<and>
      1 / 2 ^ 64 \<le> \<bar>getMarker sc 1 - getMarker sc 0\<bar> \<and>
      1 / 2 ^ 64 \<le> \<bar>DIVS_TIME c\<bar> \<and> \<bar>DIVS_TIME c\<bar> \<le> 2 ^ 64"
  then show "\<exists>r'. zoomToMain_double c sc (mainToZoom_double c sc (Finite x)) = Finite r'"
    by (intro zoom_round_trip_finite) simp_all
qed

theorem zoom_round_trip_tolerance_witness:
  "zoomToMain_double example_constants (example_scope 2 (- 1))
     (mainToZoom_double example_constants (example_scope 2 (- 1))
        (Finite (3602879701896397 / 36028797018963968)))
     = Finite (900719925474099 / 9007199254740992) \<and>
   \<bar>900719925474099 / 9007199254740992 - 3602879701896397 / 36028797018963968 :: real\<bar>
     \<le> (\<bar>3602879701896397 / 36028797018963968\<bar> + \<bar>3602879701896397 / 36028797018963968 - 1 / 2\<bar>
          + \<bar>min (getMarker (example_scope 2 (- 1)) 0) (getMarker (example_scope 2 (- 1)) 1)
               / DIVS_TIME example_constants\<bar>) / 2 ^ 50
        + (1 + (1 + \<bar>getMarker (example_scope 2 (- 1)) 1 - getMarker (example_scope 2 (- 1)) 0\<bar>)
                 / \<bar>DIVS_TIME example_constants\<bar>) / 2 ^ 1070 \<and>
   \<bar>3602879701896397 / 36028797018963968 :: real\<bar> \<le> 2 ^ 64 \<and>
   \<bar>getMarker (example_scope 2 (- 1)) 0\<bar> \<le> 2 ^ 64 \<and>
   \<bar>getMarker (example_scope 2 (- 1)) 1\<bar> \<le> 2 ^ 64 \<and>
   1 / 2 ^ 64 \<le> \<bar>getMarker (example_scope 2 (- 1)) 1 - getMarker (example_scope 2 (- 1)) 0\<bar> \<and>
   1 / 2 ^ 64 \<le> \<bar>DIVS_TIME example_constants\<bar> \<and>
   \<bar>DIVS_TIME example_constants\<bar> \<le> 2 ^ 64"
proof -
  have rt: "zoomToMain_double example_constants (example_scope 2 (- 1))
     (mainToZoom_double example_constants (example_scope 2 (- 1))
        (Finite (3602879701896397 / 36028797018963968)))
     = Finite (900719925474099 / 9007199254740992)"
    by (simp add: example_mainToZoom example_zoomToMain)
  have g: "getMarker (example_scope 2 (- 1)) 0 = 2" "getMarker (example_scope 2 (- 1)) 1 = - 1"
    "DIVS_TIME example_constants = 10"
    by (simp_all add: example_scope_def example_constants_def getMarker_def)
  from zoom_round_trip_tolerance [of example_constants "example_scope 2 (- 1)"
      "3602879701896397 / 36028797018963968" "900719925474099 / 9007199254740992"] rt
  show ?thesis unfolding g by simp
qed

text \<open>
  The round trip is not exact: the position \<open>0.1\<close>, a double, comes back as the
  double \<open>0.09999999999999998\<close>, two units in the last place below it, with the
  distinct markers 2 and - 1.
\<close>

theorem zoom_round_trip_counterexample:
  "getMarker (example_scope 2 (- 1)) 0 \<noteq> getMarker (example_scope 2 (- 1)) 1 \<and>
   fl (3602879701896397 / 36028797018963968) = Finite (3602879701896397 / 36028797018963968) \<and>
   zoomToMain_double example_constants (example_scope 2 (- 1))
     (mainToZoom_double example_constants (example_scope 2 (- 1))
        (Finite (3602879701896397 / 36028797018963968)))
     = Finite (900719925474099 / 9007199254740992) \<and>
   zoomToMain_double example_constants (example_scope 2 (- 1))
     (mainToZoom_double example_constants (example_scope 2 (- 1))
        (Finite (3602879701896397 / 36028797018963968)))
     \<noteq> Finite (3602879701896397 / 36028797018963968)"
proof -
  have "getMarker (example_scope 2 (- 1)) 0 \<noteq> getMarker (example_scope 2 (- 1)) 1"
    by (simp add: example_scope_def getMarker_def)
  moreover have "fl (3602879701896397 / 36028797018963968) = Finite (3602879701896397 / 36028797018963968)"
    by (rule fl_evalI [where e = "- 4" and k = "7205759403792794"]) (simp_all add: fl_eval_defs)
  moreover have "zoomToMain_double example_constants (example_scope 2 (- 1))
     (mainToZoom_double example_constants (example_scope 2 (- 1))
        (Finite (3602879701896397 / 36028797018963968)))
     = Finite (900719925474099 / 9007199254740992)"
    by (simp add: example_mainToZoom example_zoomToMain)
  ultimately show ?thesis by simp
qed

text \<open>
  C7. When the two time markers coincide, \<open>mainToZoom\<close> divides by zero for every
  input position: the divisor \<open>m2 - m1\<close> is zero, nothing guards the division, and
  the result is the error value. In \<open>zoomToMain\<close> the same difference is the scale
  factor of the position, so the result no longer depends on the position.
\<close>

theorem zoom_degenerate:
  assumes "getMarker sc 0 = getMarker sc 1"
  shows "mainToZoom c sc x = Inl DivisionByZero \<and> zoomToMain c sc x = zoomToMain c sc 0"
  using assms by (simp add: mainToZoom_def zoomToMain_def fdiv_def Let_def)

theorem zoom_degenerate_witness:
  "getMarker (example_scope 3 3) 0 = getMarker (example_scope 3 3) 1 \<and>
   mainToZoom example_constants (example_scope 3 3) (1 / 4) = Inl DivisionByZero \<and>
   zoomToMain example_constants (example_scope 3 3) (1 / 4) = Inr (8 / 10) \<and>
   zoomToMain example_constants (example_scope 3 3) 0 = Inr (8 / 10)"
  using zoom_degenerate [of "example_scope 3 3" example_constants "1 / 4"]
  by (simp add: example_constants_def example_scope_def getMarker_def zoomToMain_def fdiv_def)

subsection \<open>Graph history\<close>

lemma removeTooMuch_take: "removeTooMuch n h = take n h"
proof (induction n h rule: removeTooMuch.induct)
  case (1 draws h)
  show ?case
  proof (cases "draws < length h")
    case True
    then have "removeTooMuch draws h = removeTooMuch draws (butlast h)"
      by (subst removeTooMuch.simps) simp
    also from True 1 have "\<dots> = take draws (butlast h)" by simp
    also from True have "\<dots> = take draws h" by (simp add: take_butlast)
    finally show ?thesis .
  next
    case False
    then show ?thesis by (subst removeTooMuch.simps) simp
  qed
qed

lemma moveLastToFront_step:
  assumes "1 \<le> n"
  shows "\<exists>g. moveLastToFront (addIfMissing n (removeTooMuch n h)) = Inr (g # take (n - 1) h)"
proof (cases "n \<le> length h")
  case True
  with assms have ne: "take n h \<noteq> []" by auto
  from True have "butlast (take n h) = take (n - 1) h"
    by (simp add: butlast_take)
  with True ne show ?thesis
    by (simp add: removeTooMuch_take addIfMissing_def moveLastToFront_def)
next
  case False
  then show ?thesis
    by (simp add: removeTooMuch_take addIfMissing_def moveLastToFront_def)
qed

lemma showData_ok:
  assumes "shaderCompileSuccess s" and "1 \<le> digitalPhosphorDraws s"
  shows "showData s d =
     Inr (s\<lparr>m_GraphHistory := Graph (Some d) # take (digitalPhosphorDraws s - 1) (m_GraphHistory s)\<rparr>)"
proof -
  from assms(2) obtain g where
    "moveLastToFront (addIfMissing (digitalPhosphorDraws s)
        (removeTooMuch (digitalPhosphorDraws s) (m_GraphHistory s)))
       = Inr (g # take (digitalPhosphorDraws s - 1) (m_GraphHistory s))"
    using moveLastToFront_step by blast
  with assms(1) show ?thesis
    by (simp add: showData_def writeFront_def writeData_def)
qed

lemma showDataAll_ok:
  assumes "shaderCompileSuccess s" and "1 \<le> digitalPhosphorDraws s"
    and "length (m_GraphHistory s) \<le> digitalPhosphorDraws s"
  shows "showDataAll s ds =
     Inr (s\<lparr>m_GraphHistory :=
            take (digitalPhosphorDraws s) (map (\<lambda>d. Graph (Some d)) (rev ds) @ m_GraphHistory s)\<rparr>)"
  using assms
proof (induction ds arbitrary: s)
  case Nil
  then show ?case by simp
next
  case (Cons d ds)
  let ?n = "digitalPhosphorDraws s"
  let ?s1 = "s\<lparr>m_GraphHistory := Graph (Some d) # take (?n - 1) (m_GraphHistory s)\<rparr>"
  from Cons.prems have step: "showData s d = Inr ?s1" by (simp add: showData_ok)
  from Cons.prems have len: "length (m_GraphHistory ?s1) \<le> digitalPhosphorDraws ?s1" by simp
  have cons_take: "Graph (Some d) # take (?n - 1) (m_GraphHistory s) = take ?n (Graph (Some d) # m_GraphHistory s)"
    using Cons.prems(2) by (cases ?n) simp_all
  have "showDataAll ?s1 ds = Inr (?s1\<lparr>m_GraphHistory :=
            take (digitalPhosphorDraws ?s1) (map (\<lambda>d. Graph (Some d)) (rev ds) @ m_GraphHistory ?s1)\<rparr>)"
    using Cons.prems len by (intro Cons.IH) simp_all
  moreover have "take ?n (map (\<lambda>d. Graph (Some d)) (rev ds) @ take ?n (Graph (Some d) # m_GraphHistory s))
      = take ?n (map (\<lambda>d. Graph (Some d)) (rev ds) @ Graph (Some d) # m_GraphHistory s)"
    by (simp add: min_def)
  ultimately show ?case
    using step cons_take by simp
qed


lemma stages_bounded:
  assumes "1 \<le> n" and "length h \<le> n"
  shows "length (removeTooMuch n h) \<le> n"
    and "length (addIfMissing n (removeTooMuch n h)) \<le> n"
    and "\<exists>h'. moveLastToFront (addIfMissing n (removeTooMuch n h)) = Inr h' \<and> length h' \<le> n"
proof -
  show "length (removeTooMuch n h) \<le> n"
    by (simp add: removeTooMuch_take)
  from assms show "length (addIfMissing n (removeTooMuch n h)) \<le> n"
    by (simp add: removeTooMuch_take addIfMissing_def)
  from assms(1) obtain g where
    "moveLastToFront (addIfMissing n (removeTooMuch n h)) = Inr (g # take (n - 1) h)"
    using moveLastToFront_step by blast
  moreover from assms(1) have "length (g # take (n - 1) h) \<le> n" by simp
  ultimately show "\<exists>h'. moveLastToFront (addIfMissing n (removeTooMuch n h)) = Inr h' \<and> length h' \<le> n"
    by blast
qed

text \<open>
  C2 (amended). While the shader program is set up, for a fixed capacity \<open>C\<close> of at
  least 1 and an empty history, \<open>N\<close> calls of \<open>showData\<close> succeed and leave the
  \<open>min N C\<close> newest frames, newest first; the history of the next call has at most
  \<open>C\<close> entries after each of its steps (dropping, adding, moving the last entry to
  the front), so the bound holds during and after every insertion.
\<close>

theorem history_after_insertions:
  fixes s :: "'d GlScope" and ds :: "'d list"
  defines "C \<equiv> digitalPhosphorDraws s"
  defines "H \<equiv> map (\<lambda>d. Graph (Some d)) (take C (rev ds))"
  assumes "shaderCompileSuccess s" and "1 \<le> C" and "m_GraphHistory s = []"
  shows "showDataAll s ds = Inr (s\<lparr>m_GraphHistory := H\<rparr>) \<and>
     length H = min (length ds) C \<and>
     length (removeTooMuch C H) \<le> C \<and>
     length (addIfMissing C (removeTooMuch C H)) \<le> C \<and>
     (\<exists>h. moveLastToFront (addIfMissing C (removeTooMuch C H)) = Inr h \<and> length h \<le> C)"
proof -
  from assms have run: "showDataAll s ds = Inr (s\<lparr>m_GraphHistory := H\<rparr>)"
    by (simp add: showDataAll_ok take_map)
  have len: "length H = min (length ds) C"
    by (simp add: H_def min.commute)
  then have "length H \<le> C" by simp
  with \<open>1 \<le> C\<close> run len show ?thesis
    using stages_bounded [of C H] by blast
qed

theorem history_after_insertions_witness:
  "shaderCompileSuccess (example_view [] 0 0) \<and>
   1 \<le> digitalPhosphorDraws (example_view [] 0 0) \<and>
   m_GraphHistory (example_view [] 0 0) = [] \<and>
   showDataAll (example_view [] 0 0) [1, 2, 3] =
     Inr ((example_view [] 0 0)\<lparr>m_GraphHistory := [Graph (Some 3), Graph (Some 2)]\<rparr>)"
  using history_after_insertions [of "example_view [] 0 0" "[1, 2, 3]"]
  by (simp add: example_view_def)

text \<open>
  Without the shader program \<open>showData\<close> returns at once: one call with capacity 2
  leaves the history empty.
\<close>

theorem history_shader_counterexample:
  "showDataAll ((example_view [] 0 0)\<lparr>shaderCompileSuccess := False\<rparr>) [7] =
     Inr ((example_view [] 0 0)\<lparr>shaderCompileSuccess := False\<rparr>) \<and>
   length (m_GraphHistory ((example_view [] 0 0)\<lparr>shaderCompileSuccess := False\<rparr>))
     \<noteq> min (length [7::nat])
           (digitalPhosphorDraws ((example_view [] 0 0)\<lparr>shaderCompileSuccess := False\<rparr>))"
  by (simp add: example_view_def showData_def)

text \<open>
  C8 (amended). With capacity 1 and the shader program set up, \<open>showData\<close> is
  well-defined on every history (no access to an empty list) and leaves exactly the
  latest frame, which is all that is drawn.
\<close>

theorem showData_capacity_one:
  assumes "shaderCompileSuccess s" and "digitalPhosphorDraws s = 1"
  shows "showData s d = Inr (s\<lparr>m_GraphHistory := [Graph (Some d)]\<rparr>)"
  using assms by (simp add: showData_ok)

theorem showData_capacity_one_witness:
  "shaderCompileSuccess ((example_view [] 0 0)\<lparr>digitalPhosphorDraws := 1, m_GraphHistory := [Graph (Some 4), Graph None]\<rparr>) \<and>
   digitalPhosphorDraws ((example_view [] 0 0)\<lparr>digitalPhosphorDraws := 1, m_GraphHistory := [Graph (Some 4), Graph None]\<rparr>) = 1 \<and>
   showData ((example_view [] 0 0)\<lparr>digitalPhosphorDraws := 1, m_GraphHistory := [Graph (Some 4), Graph None]\<rparr>) 5 =
     Inr ((example_view [] 0 0)\<lparr>digitalPhosphorDraws := 1, m_GraphHistory := [Graph (Some 5)]\<rparr>)"
  using showData_capacity_one [of "(example_view [] 0 0)\<lparr>digitalPhosphorDraws := 1, m_GraphHistory := [Graph (Some 4), Graph None]\<rparr>" 5]
  by (simp add: example_view_def)

text \<open>
  With capacity 0 the history is emptied and the step that moves the last entry to
  the front has no entry to take.
\<close>

theorem showData_capacity_zero_counterexample:
  "showData ((example_view [] 0 0)\<lparr>digitalPhosphorDraws := 0\<rparr>) 5 = Inl EmptyContainer"
  by (simp add: example_view_def showData_def removeTooMuch_take addIfMissing_def moveLastToFront_def)

subsection \<open>Cursor geometry\<close>

text \<open>
  C5. For every cursor shape and every pair of marker positions, \<open>generateVertices\<close>
  stores a loop of four vertices: for \<open>NONE\<close> the rectangle of the scale constants
  (corners at plus and minus \<^verbatim>\<open>DIVS_TIME\<close> and \<^verbatim>\<open>DIVS_VOLTAGE\<close>),
  for \<open>VERTICAL\<close> the rectangle between \<open>x = pos0.x\<close> and \<open>x = pos1.x\<close> over the
  whole vertical scale, for \<open>HORIZONTAL\<close> the rectangle between \<open>y = pos0.y\<close> and
  \<open>y = pos1.y\<close> over the whole horizontal scale, and for \<open>RECTANGULAR\<close> the corners
  \<open>(pos0.x, pos0.y)\<close>, \<open>(pos0.x, pos1.y)\<close>, \<open>(pos1.x, pos1.y)\<close>, \<open>(pos1.x, pos0.y)\<close>.
  The witness is the example of the specification: \<open>pos0 = (-1, -1)\<close> and
  \<open>pos1 = (1, 1)\<close> give the corners \<open>(-1, -1)\<close>, \<open>(-1, 1)\<close>, \<open>(1, 1)\<close>, \<open>(1, -1)\<close>.
\<close>

theorem generateVertices_table:
  assumes "marker < length (vaMarker s)" and "position cur = [pos0, pos1]"
  shows "\<exists>s'. generateVertices c s marker cur = Inr s' \<and>
     length (vaMarker s' ! marker) = 4 \<and>
     (shape cur = NONE \<longrightarrow> vaMarker s' ! marker =
        [QVector3D (- DIVS_TIME c) (- DIVS_VOLTAGE c) 1, QVector3D (- DIVS_TIME c) (DIVS_VOLTAGE c) 1,
         QVector3D (DIVS_TIME c) (DIVS_VOLTAGE c) 1, QVector3D (DIVS_TIME c) (- DIVS_VOLTAGE c) 1]) \<and>
     (shape cur = VERTICAL \<longrightarrow> vaMarker s' ! marker =
        [QVector3D (xp pos0) (- DIVS_VOLTAGE c) 1, QVector3D (xp pos0) (DIVS_VOLTAGE c) 1,
         QVector3D (xp pos1) (DIVS_VOLTAGE c) 1, QVector3D (xp pos1) (- DIVS_VOLTAGE c) 1]) \<and>
     (shape cur = HORIZONTAL \<longrightarrow> vaMarker s' ! marker =
        [QVector3D (- DIVS_TIME c) (yp pos0) 1, QVector3D (DIVS_TIME c) (yp pos0) 1,
         QVector3D (DIVS_TIME c) (yp pos1) 1, QVector3D (- DIVS_TIME c) (yp pos1) 1]) \<and>
     (shape cur = RECTANGULAR \<longrightarrow> vaMarker s' ! marker =
        [QVector3D (xp pos0) (yp pos0) 1, QVector3D (xp pos0) (yp pos1) 1,
         QVector3D (xp pos1) (yp pos1) 1, QVector3D (xp pos1) (yp pos0) 1])"
  using assms by (cases "shape cur") (simp_all add: generateVertices_def)

theorem generateVertices_table_witness:
  "(0::nat) < length (vaMarker (example_view [\<lparr>shape = RECTANGULAR, position = [QPointF (- 1) (- 1), QPointF 1 1]\<rparr>] 0 0)) \<and>
   generateVertices example_constants
     (example_view [\<lparr>shape = RECTANGULAR, position = [QPointF (- 1) (- 1), QPointF 1 1]\<rparr>] 0 0) 0
     \<lparr>shape = RECTANGULAR, position = [QPointF (- 1) (- 1), QPointF 1 1]\<rparr> =
   Inr ((example_view [\<lparr>shape = RECTANGULAR, position = [QPointF (- 1) (- 1), QPointF 1 1]\<rparr>] 0 0)
          \<lparr>vaMarker := [[QVector3D (- 1) (- 1) 1, QVector3D (- 1) 1 1, QVector3D 1 1 1, QVector3D 1 (- 1) 1]]\<rparr>)"
  using generateVertices_table [of 0 "example_view [\<lparr>shape = RECTANGULAR, position = [QPointF (- 1) (- 1), QPointF 1 1]\<rparr>] 0 0"
     "\<lparr>shape = RECTANGULAR, position = [QPointF (- 1) (- 1), QPointF 1 1]\<rparr>" "QPointF (- 1) (- 1)" "QPointF 1 1" example_constants]
  by (simp add: example_view_def generateVertices_def)

subsection \<open>Trigger-position slider of the zoom view\<close>

lemma adaptTriggerPositionSlider_result:
  "adaptTriggerPositionSlider c w =
     w\<lparr>zoom_triggerPositionSlider :=
       (let v = mainToZoom_double c (scope w) (Finite (trigger_position (scope w)));
            sl = zoom_triggerPositionSlider w
        in if dle (minimum sl) v \<and> dle v (maximum sl)
           then sl\<lparr>enabled := True, slider_value := v\<rparr>
           else sl\<lparr>enabled := False,
                  slider_value := (if dless v (minimum sl) then minimum sl else maximum sl)\<rparr>)\<rparr>"
  by (simp add: adaptTriggerPositionSlider_def setEnabled_def setValue_def Let_def)

lemma updateMarkerDetails_slider:
  "zoom_triggerPositionSlider (updateMarkerDetails w) = zoom_triggerPositionSlider w"
  by (simp add: updateMarkerDetails_def)

text \<open>A value above the upper bound of a range is not below its lower bound.\<close>

lemma dless_above:
  assumes "dle lo hi" and "dless hi v"
  shows "\<not> dless v lo"
  using assms by (cases lo; cases hi; cases v) simp_all

lemma example_double_values:
  "fl 1 = Finite 1" "fl 2 = Finite 2" "fl 4 = Finite 4" "fl (1 / 2) = Finite (1 / 2)"
  "fl (- 2) = Finite (- 2)"
proof -
  show "fl 1 = Finite 1"
    by (rule fl_evalI [where e = 0 and k = 4503599627370496]) (simp_all add: fl_eval_defs)
  show "fl 2 = Finite 2"
    by (rule fl_evalI [where e = 1 and k = 4503599627370496]) (simp_all add: fl_eval_defs)
  show "fl 4 = Finite 4"
    by (rule fl_evalI [where e = 2 and k = 4503599627370496]) (simp_all add: fl_eval_defs)
  show "fl (1 / 2) = Finite (1 / 2)"
    by (rule fl_evalI [where e = "- 1" and k = 4503599627370496]) (simp_all add: fl_eval_defs)
  show "fl (- 2) = Finite (- 2)"
    by (rule fl_evalI [where e = 1 and k = "- 4503599627370496"]) (simp_all add: fl_eval_defs)
qed

lemma example_slider_values:
  "mainToZoom_double example_constants (example_scope (- 2) 2) (Finite (1 / 2)) = Finite (1 / 2)"
  "mainToZoom_double example_constants (example_scope (- 1) (- 1 / 2)) (Finite (1 / 2)) = Finite 2"
  "mainToZoom_double example_constants (example_scope 2 2) (Finite (1 / 2)) = MinusInf"
  by (simp_all add: mainToZoom_double_def example_constants_def example_scope_def getMarker_def
        dsub_def signed_inf_def fl_zero example_double_values)

text \<open>
  A marker move that makes the markers coincide completes: the mapped trigger position
  is an infinity or a NaN, and a slider with finite bounds is disabled and set to
  its minimum (for the negative infinity) or to its maximum.
\<close>

lemma trigger_slider_degenerate:
  fixes w :: DsoWidget
  defines "sl \<equiv> zoom_triggerPositionSlider w"
  assumes "setMarker (scope w) marker val = Inr sc"
    and "getMarker sc 0 = getMarker sc 1"
    and "minimum sl = Finite lo" and "maximum sl = Finite hi"
  shows "\<exists>w2. updateMarker c w marker val = Inr w2 \<and>
     \<not> enabled (zoom_triggerPositionSlider w2) \<and>
     slider_value (zoom_triggerPositionSlider w2)
       = (if mainToZoom_double c sc (Finite (trigger_position sc)) = MinusInf
          then Finite lo else Finite hi)"
proof -
  define v where "v = mainToZoom_double c sc (Finite (trigger_position sc))"
  have nf: "v \<noteq> Finite t" for t
    unfolding v_def using assms(3) by (rule mainToZoom_double_degenerate)
  have "\<not> (dle (Finite lo) v \<and> dle v (Finite hi)) \<and> dless v (Finite lo) = (v = MinusInf)"
  proof (cases v)
    case (Finite t)
    with nf [of t] show ?thesis by simp
  qed simp_all
  with assms(2,4,5) show ?thesis
    unfolding v_def
    by (auto simp: updateMarker_def adaptTriggerPositionSlider_result updateMarkerDetails_slider
          sl_def Let_def)
qed

text \<open>
  C6. A marker move (\<open>updateMarker\<close>) recomputes the trigger-position slider of the
  zoom view from the new markers, whether they differ or coincide. When the trigger
  position mapped into the zoom view lies within the range of the slider, the slider
  is enabled and set to that value; otherwise it is disabled and set to the minimum
  when the value is below it and to the maximum when the value is above it. A mapped
  value that is a NaN (coinciding markers, trigger position on them) compares false
  with both bounds: the slider is disabled and set to the maximum. The range of the
  slider is kept.
\<close>

theorem trigger_slider_recomputed:
  fixes w :: DsoWidget
  defines "sl \<equiv> zoom_triggerPositionSlider w"
  assumes "setMarker (scope w) marker val = Inr sc"
    and "dle (minimum sl) (maximum sl)"
  shows "\<exists>v w2. mainToZoom_double c sc (Finite (trigger_position sc)) = v \<and>
     updateMarker c w marker val = Inr w2 \<and>
     zoom_triggerPositionSlider w2
       = zoom_triggerPositionSlider (adaptTriggerPositionSlider c (w\<lparr>scope := sc\<rparr>)) \<and>
     minimum (zoom_triggerPositionSlider w2) = minimum sl \<and>
     maximum (zoom_triggerPositionSlider w2) = maximum sl \<and>
     (if dle (minimum sl) v \<and> dle v (maximum sl)
      then enabled (zoom_triggerPositionSlider w2) \<and> slider_value (zoom_triggerPositionSlider w2) = v
      else \<not> enabled (zoom_triggerPositionSlider w2) \<and>
           (dless v (minimum sl) \<longrightarrow> slider_value (zoom_triggerPositionSlider w2) = minimum sl) \<and>
           (dless (maximum sl) v \<longrightarrow> slider_value (zoom_triggerPositionSlider w2) = maximum sl) \<and>
           (v = NaN \<longrightarrow> slider_value (zoom_triggerPositionSlider w2) = maximum sl))"
proof -
  define v where "v = mainToZoom_double c sc (Finite (trigger_position sc))"
  let ?w0 = "w\<lparr>scope := sc\<rparr>"
  let ?s1 = "if dle (minimum sl) v \<and> dle v (maximum sl)
        then sl\<lparr>enabled := True, slider_value := v\<rparr>
        else sl\<lparr>enabled := False,
               slider_value := (if dless v (minimum sl) then minimum sl else maximum sl)\<rparr>"
  have a: "zoom_triggerPositionSlider (adaptTriggerPositionSlider c ?w0) = ?s1"
    unfolding adaptTriggerPositionSlider_result [of c ?w0] by (simp add: sl_def v_def Let_def)
  from assms(2) have u: "updateMarker c w marker val
      = Inr (updateMarkerDetails (adaptTriggerPositionSlider c ?w0))"
    by (simp add: updateMarker_def)
  have z: "zoom_triggerPositionSlider (updateMarkerDetails (adaptTriggerPositionSlider c ?w0)) = ?s1"
    using a by (simp only: updateMarkerDetails_slider)
  have above: "\<not> dless v (minimum sl)" if "dless (maximum sl) v"
    using assms(3) that by (rule dless_above)
  have "if dle (minimum sl) v \<and> dle v (maximum sl)
      then enabled ?s1 \<and> slider_value ?s1 = v
      else \<not> enabled ?s1 \<and>
           (dless v (minimum sl) \<longrightarrow> slider_value ?s1 = minimum sl) \<and>
           (dless (maximum sl) v \<longrightarrow> slider_value ?s1 = maximum sl) \<and>
           (v = NaN \<longrightarrow> slider_value ?s1 = maximum sl)"
    using above by auto
  moreover have "minimum ?s1 = minimum sl" and "maximum ?s1 = maximum sl" by simp_all
  ultimately show ?thesis
    unfolding z [symmetric] a [symmetric] using u v_def
    by (intro exI [of _ v] exI [of _ "updateMarkerDetails (adaptTriggerPositionSlider c ?w0)"])
       (simp add: updateMarkerDetails_slider)
qed

theorem trigger_slider_recomputed_witness:
  "setMarker (scope (example_widget (- 1) 2)) 0 (- 2) = Inr (example_scope (- 2) 2) \<and>
   dle (minimum (zoom_triggerPositionSlider (example_widget (- 1) 2)))
       (maximum (zoom_triggerPositionSlider (example_widget (- 1) 2))) \<and>
   mainToZoom_double example_constants (example_scope (- 2) 2)
       (Finite (trigger_position (example_scope (- 2) 2)))
     = Finite (1 / 2) \<and>
   map_sum id zoom_triggerPositionSlider (updateMarker example_constants (example_widget (- 1) 2) 0 (- 2))
     = Inr \<lparr>minimum = Finite 0, maximum = Finite 1, enabled = True, slider_value = Finite (1 / 2)\<rparr> \<and>
   setMarker (scope (example_widget (- 1) 2)) 1 (- 1 / 2) = Inr (example_scope (- 1) (- 1 / 2)) \<and>
   mainToZoom_double example_constants (example_scope (- 1) (- 1 / 2))
       (Finite (trigger_position (example_scope (- 1) (- 1 / 2))))
     = Finite 2 \<and>
   map_sum id zoom_triggerPositionSlider
       (updateMarker example_constants (example_widget (- 1) 2) 1 (- 1 / 2))
     = Inr \<lparr>minimum = Finite 0, maximum = Finite 1, enabled = False, slider_value = Finite 1\<rparr> \<and>
   setMarker (scope (example_widget (- 1) 2)) 0 2 = Inr (example_scope 2 2) \<and>
   getMarker (example_scope 2 2) 0 = getMarker (example_scope 2 2) 1 \<and>
   mainToZoom_double example_constants (example_scope 2 2)
       (Finite (trigger_position (example_scope 2 2)))
     = MinusInf \<and>
   map_sum id zoom_triggerPositionSlider (updateMarker example_constants (example_widget (- 1) 2) 0 2)
     = Inr \<lparr>minimum = Finite 0, maximum = Finite 1, enabled = False, slider_value = Finite 0\<rparr>"
  using trigger_slider_recomputed [of "example_widget (- 1) 2" 0 "- 2" "example_scope (- 2) 2" example_constants]
    trigger_slider_recomputed [of "example_widget (- 1) 2" 1 "- 1 / 2" "example_scope (- 1) (- 1 / 2)" example_constants]
    trigger_slider_recomputed [of "example_widget (- 1) 2" 0 2 "example_scope 2 2" example_constants]
  by (simp add: example_widget_def example_scope_def example_constants_def setMarker_def
        MARKER_COUNT_def setX_def getMarker_def mainToZoom_double_def dsub_def signed_inf_def
        fl_zero example_double_values updateMarker_def
        adaptTriggerPositionSlider_def setEnabled_def setValue_def updateMarkerDetails_def)

subsection \<open>Cursor measurements\<close>

lemma updateVoltageCursor_length:
  "length (updateVoltageCursor sc channel infos) = length infos"
  by (simp add: updateVoltageCursor_def Let_def)

lemma updateVoltageCursor_other:
  "k \<noteq> channel \<Longrightarrow> updateVoltageCursor sc channel infos ! k = infos ! k"
  by (simp add: updateVoltageCursor_def Let_def)

lemma fold_updateVoltageCursor_length:
  "length (fold (updateVoltageCursor sc) [0..<n] infos) = length infos"
  by (induction n) (simp_all add: updateVoltageCursor_length)

lemma fold_updateVoltageCursor_later:
  "n \<le> k \<Longrightarrow> fold (updateVoltageCursor sc) [0..<n] infos ! k = infos ! k"
  by (induction n) (simp_all add: updateVoltageCursor_other)

lemma updateVoltageCursor_same:
  assumes "channel < length infos" and "length infos' = length infos"
    and "infos' ! channel = infos ! channel"
  shows "updateVoltageCursor sc channel infos' ! channel = updateVoltageCursor sc channel infos ! channel"
  using assms by (simp add: updateVoltageCursor_def Let_def)

lemma fold_updateVoltageCursor_nth:
  assumes "channel < n" and "channel < length infos"
  shows "fold (updateVoltageCursor sc) [0..<n] infos ! channel
       = updateVoltageCursor sc channel infos ! channel"
  using assms
proof (induction n)
  case 0
  then show ?case by simp
next
  case (Suc n)
  show ?case
  proof (cases "channel = n")
    case True
    have "fold (updateVoltageCursor sc) [0..<Suc n] infos ! channel
        = updateVoltageCursor sc n (fold (updateVoltageCursor sc) [0..<n] infos) ! n"
      using True by simp
    also have "\<dots> = updateVoltageCursor sc n infos ! n"
      using Suc.prems True
      by (intro updateVoltageCursor_same)
         (simp_all add: fold_updateVoltageCursor_length fold_updateVoltageCursor_later)
    finally show ?thesis using True by simp
  next
    case False
    with Suc.prems have "channel < n" by simp
    with Suc False show ?thesis
      by (simp add: updateVoltageCursor_other)
  qed
qed

text \<open>
  C9 (amended). For every used voltage channel with marker positions \<open>pos0\<close> and
  \<open>pos1\<close>, the measurements handed to the labels are the signed products
  \<open>(pos1.x - pos0.x) * timebase\<close> in seconds and \<open>(pos1.y - pos0.y) * gain\<close> in
  volts. The time difference is shown for the shapes \<open>VERTICAL\<close> and \<open>RECTANGULAR\<close>,
  the voltage difference for \<open>HORIZONTAL\<close> and \<open>RECTANGULAR\<close>; a label that is not
  shown is empty, so a cursor of shape \<open>NONE\<close> shows neither. The witness is the
  example of the specification with a rectangular cursor: \<open>pos0 = (0, 0)\<close>,
  \<open>pos1 = (2, 1)\<close>, gain 0.5 and timebase 0.001 give 0.002 seconds and 0.5 volts.
\<close>

theorem voltage_cursor_measurements:
  fixes w :: DsoWidget
  defines "ch \<equiv> \<lambda>channel. voltage (scope w) ! channel"
  assumes "channel < length (voltage (scope w))"
    and "length (voltageCursors w) = length (voltage (scope w))"
    and "used (ch channel)"
    and "position (cursor (ch channel)) = [pos0, pos1]"
  shows "selector_enabled (voltageCursors (updateMarkerDetails w) ! channel) \<and>
     deltaXLabel (voltageCursors (updateMarkerDetails w) ! channel) =
       (if shape (cursor (ch channel)) = VERTICAL \<or> shape (cursor (ch channel)) = RECTANGULAR
        then valueToString ((xp pos1 - xp pos0) * horizontal_timebase (scope w)) UNIT_SECONDS 4
        else EmptyString) \<and>
     deltaYLabel (voltageCursors (updateMarkerDetails w) ! channel) =
       (if shape (cursor (ch channel)) = HORIZONTAL \<or> shape (cursor (ch channel)) = RECTANGULAR
        then valueToString ((yp pos1 - yp pos0) * gain (ch channel)) UNIT_VOLTS 4
        else EmptyString)"
proof -
  from assms(2,3) have "voltageCursors (updateMarkerDetails w) ! channel
      = updateVoltageCursor (scope w) channel (voltageCursors w) ! channel"
    by (simp add: updateMarkerDetails_def fold_updateVoltageCursor_nth)
  with assms(2-5) show ?thesis
    unfolding ch_def
    by (cases "shape (cursor (voltage (scope w) ! channel))")
       (simp_all add: updateVoltageCursor_def Let_def)
qed

theorem voltage_cursor_measurements_witness:
  "(0::nat) < length (voltage (scope (example_widget 0 1))) \<and>
   length (voltageCursors (example_widget 0 1)) = length (voltage (scope (example_widget 0 1))) \<and>
   used (voltage (scope (example_widget 0 1)) ! 0) \<and>
   position (cursor (voltage (scope (example_widget 0 1)) ! 0)) = [QPointF 0 0, QPointF 2 1] \<and>
   gain (voltage (scope (example_widget 0 1)) ! 0) = 1 / 2 \<and>
   horizontal_timebase (scope (example_widget 0 1)) = 1 / 1000 \<and>
   voltageCursors (updateMarkerDetails (example_widget 0 1)) =
     [\<lparr>selector_enabled = True, shape_text = tr ''#'',
       deltaXLabel = valueToString (2 / 1000) UNIT_SECONDS 4,
       deltaYLabel = valueToString (1 / 2) UNIT_VOLTS 4\<rparr>]"
  using voltage_cursor_measurements [of 0 "example_widget 0 1" "QPointF 0 0" "QPointF 2 1"]
  by (simp add: example_widget_def example_scope_def updateMarkerDetails_def updateVoltageCursor_def)

text \<open>
  The same channel with a cursor of shape \<open>NONE\<close>: the channel is used, and both
  measurement labels are empty.
\<close>

theorem voltage_cursor_none_counterexample:
  "used (voltage (scope (example_widget_shape NONE)) ! 0) \<and>
   position (cursor (voltage (scope (example_widget_shape NONE)) ! 0)) = [QPointF 0 0, QPointF 2 1] \<and>
   voltageCursors (updateMarkerDetails (example_widget_shape NONE)) =
     [\<lparr>selector_enabled = True, shape_text = tr ''OFF'',
       deltaXLabel = EmptyString, deltaYLabel = EmptyString\<rparr>] \<and>
   EmptyString \<noteq> valueToString ((2 - 0) * (1 / 1000)) UNIT_SECONDS 4 \<and>
   EmptyString \<noteq> valueToString ((1 - 0) * (1 / 2)) UNIT_VOLTS 4"
  by (simp add: example_widget_shape_def example_widget_def example_scope_def
        updateMarkerDetails_def updateVoltageCursor_def)

subsection \<open>Pointer events\<close>

lemma upt_MARKER_COUNT: "[0..<MARKER_COUNT] = [0, Suc 0]"
  by (simp add: MARKER_COUNT_def upt_rec)

lemma captureStep_eq:
  "captureStep c cur p m (QPointF a b, k) =
     (QPointF
        (if (shape cur = RECTANGULAR \<or> shape cur = VERTICAL) \<and>
            \<bar>xp (position cur ! m) - xp p\<bar> < min a (DIVS_TIME c / 100)
         then \<bar>xp (position cur ! m) - xp p\<bar> else a)
        (if (shape cur = RECTANGULAR \<or> shape cur = HORIZONTAL) \<and>
            \<bar>yp (position cur ! m) - yp p\<bar> < min b (DIVS_VOLTAGE c / 100)
         then \<bar>yp (position cur ! m) - yp p\<bar> else b),
      if (shape cur = RECTANGULAR \<or> shape cur = VERTICAL) \<and>
            \<bar>xp (position cur ! m) - xp p\<bar> < min a (DIVS_TIME c / 100)
         \<or> (shape cur = RECTANGULAR \<or> shape cur = HORIZONTAL) \<and>
            \<bar>yp (position cur ! m) - yp p\<bar> < min b (DIVS_VOLTAGE c / 100)
      then m else k)"
  by (cases "shape cur") (auto simp: captureStep_def Let_def setX_def setY_def)

lemma snap_nearer:
  fixes D a b :: real
  assumes "0 < D"
  shows "(b < min (if P \<and> a < min D (D / 100) then a else D) (D / 100)) =
         (b < D / 100 \<and> (P \<longrightarrow> b < a))"
  using assms by (auto simp: min_def)

lemma captureNearestMarker_eq:
  assumes "0 < DIVS_TIME c" and "0 < DIVS_VOLTAGE c"
  shows "captureNearestMarker c cur p =
    (if (shape cur = RECTANGULAR \<or> shape cur = VERTICAL) \<and>
          \<bar>xp (position cur ! 1) - xp p\<bar> < DIVS_TIME c / 100 \<and>
          \<bar>xp (position cur ! 1) - xp p\<bar> < \<bar>xp (position cur ! 0) - xp p\<bar>
        \<or> (shape cur = RECTANGULAR \<or> shape cur = HORIZONTAL) \<and>
          \<bar>yp (position cur ! 1) - yp p\<bar> < DIVS_VOLTAGE c / 100 \<and>
          \<bar>yp (position cur ! 1) - yp p\<bar> < \<bar>yp (position cur ! 0) - yp p\<bar>
     then 1
     else if (shape cur = RECTANGULAR \<or> shape cur = VERTICAL) \<and>
          \<bar>xp (position cur ! 0) - xp p\<bar> < DIVS_TIME c / 100
        \<or> (shape cur = RECTANGULAR \<or> shape cur = HORIZONTAL) \<and>
          \<bar>yp (position cur ! 0) - yp p\<bar> < DIVS_VOLTAGE c / 100
     then 0
     else NO_MARKER c)"
proof -
  from assms have mx: "min (DIVS_TIME c) (DIVS_TIME c / 100) = DIVS_TIME c / 100"
    and my: "min (DIVS_VOLTAGE c) (DIVS_VOLTAGE c / 100) = DIVS_VOLTAGE c / 100"
    by (simp_all add: min_def)
  have "captureNearestMarker c cur p =
     snd (captureStep c cur p (Suc 0)
            (captureStep c cur p 0 (QPointF (DIVS_TIME c) (DIVS_VOLTAGE c), NO_MARKER c)))"
    by (simp add: captureNearestMarker_def upt_MARKER_COUNT)
  also have "\<dots> = (if (shape cur = RECTANGULAR \<or> shape cur = VERTICAL) \<and>
          \<bar>xp (position cur ! 1) - xp p\<bar> < DIVS_TIME c / 100 \<and>
          \<bar>xp (position cur ! 1) - xp p\<bar> < \<bar>xp (position cur ! 0) - xp p\<bar>
        \<or> (shape cur = RECTANGULAR \<or> shape cur = HORIZONTAL) \<and>
          \<bar>yp (position cur ! 1) - yp p\<bar> < DIVS_VOLTAGE c / 100 \<and>
          \<bar>yp (position cur ! 1) - yp p\<bar> < \<bar>yp (position cur ! 0) - yp p\<bar>
     then 1
     else if (shape cur = RECTANGULAR \<or> shape cur = VERTICAL) \<and>
          \<bar>xp (position cur ! 0) - xp p\<bar> < DIVS_TIME c / 100
        \<or> (shape cur = RECTANGULAR \<or> shape cur = HORIZONTAL) \<and>
          \<bar>yp (position cur ! 0) - yp p\<bar> < DIVS_VOLTAGE c / 100
     then 0
     else NO_MARKER c)"
    apply (simp only: captureStep_eq snd_conv snap_nearer [OF assms(1)] snap_nearer [OF assms(2)])
    apply (simp only: mx my)
    apply (cases "shape cur")
       apply (simp_all (no_asm_simp))
    done
  finally show ?thesis .
qed

lemma eventPosition_fields:
  "width s' = width s \<Longrightarrow> height s' = height s \<Longrightarrow> eventPosition c s' e = eventPosition c s e"
  by (simp add: eventPosition_def split: sum.splits)

lemma mousePressEvent_result:
  assumes "selectedCursor s < length (cursorInfo s)" and "\<not> zoomed s"
    and "button e = LeftButton" and "eventPosition c s e = Inr p"
  shows "mousePressEvent c s e =
     (if captureNearestMarker c (cursorInfo s ! selectedCursor s) p \<noteq> NO_MARKER c
      then Inr (s\<lparr>selectedMarker := captureNearestMarker c (cursorInfo s ! selectedCursor s) p,
                 cursorInfo := (cursorInfo s)[selectedCursor s :=
                   (cursorInfo s ! selectedCursor s)\<lparr>position :=
                     (position (cursorInfo s ! selectedCursor s))
                       [captureNearestMarker c (cursorInfo s ! selectedCursor s) p := p]\<rparr>],
                 markerMoved := markerMoved s @
                   (if selectedCursor s = 0
                    then [captureNearestMarker c (cursorInfo s ! selectedCursor s) p] else [])\<rparr>)
      else Inr (s\<lparr>selectedMarker := NO_MARKER c\<rparr>))"
  using assms
  by (simp add: mousePressEvent_def setPosition_def emit_markerMoved_def Let_def)

lemma moveAllMarkers_result:
  assumes "selectedCursor s < length (cursorInfo s)"
  shows "moveAllMarkers [0..<MARKER_COUNT] p s =
     Inr (s\<lparr>selectedMarker := 1,
             cursorInfo := (cursorInfo s)[selectedCursor s :=
               (cursorInfo s ! selectedCursor s)\<lparr>position :=
                 (position (cursorInfo s ! selectedCursor s))[0 := p, 1 := p]\<rparr>],
             markerMoved := markerMoved s @ [0, 1]\<rparr>)"
  using assms
  by (simp add: upt_MARKER_COUNT setPosition_def emit_markerMoved_def Let_def)

lemma mouseMoveEvent_result:
  assumes "selectedCursor s < length (cursorInfo s)" and "\<not> zoomed s"
    and "LeftButton \<in> buttons e" and "eventPosition c s e = Inr p"
  shows "mouseMoveEvent c s e =
     (if selectedMarker s = NO_MARKER c
      then Inr (s\<lparr>selectedMarker := 1,
             cursorInfo := (cursorInfo s)[selectedCursor s :=
               (cursorInfo s ! selectedCursor s)\<lparr>position :=
                 (position (cursorInfo s ! selectedCursor s))[0 := p, 1 := p]\<rparr>],
             markerMoved := markerMoved s @ [0, 1]\<rparr>)
      else if selectedMarker s < MARKER_COUNT
      then Inr (s\<lparr>cursorInfo := (cursorInfo s)[selectedCursor s :=
               (cursorInfo s ! selectedCursor s)\<lparr>position :=
                 (position (cursorInfo s ! selectedCursor s))[selectedMarker s := p]\<rparr>],
             markerMoved := markerMoved s @ [selectedMarker s]\<rparr>)
      else Inr s)"
  using assms
  by (simp add: mouseMoveEvent_def moveAllMarkers_result setPosition_def emit_markerMoved_def Let_def)

lemma mouseReleaseEvent_result:
  assumes "selectedCursor s < length (cursorInfo s)" and "\<not> zoomed s"
    and "button e = LeftButton" and "eventPosition c s e = Inr p"
  shows "mouseReleaseEvent c s e =
     (if selectedMarker s < MARKER_COUNT
      then Inr (s\<lparr>selectedMarker := NO_MARKER c,
             cursorInfo := (cursorInfo s)[selectedCursor s :=
               (cursorInfo s ! selectedCursor s)\<lparr>position :=
                 (position (cursorInfo s ! selectedCursor s))[selectedMarker s := p]\<rparr>],
             markerMoved := markerMoved s @ [selectedMarker s]\<rparr>)
      else Inr (s\<lparr>selectedMarker := NO_MARKER c\<rparr>))"
  using assms
  by (simp add: mouseReleaseEvent_def setPosition_def emit_markerMoved_def Let_def)


lemma list_update_pair:
  assumes "length xs = MARKER_COUNT"
  shows "xs[0 := a, 1 := b] = [a, b]"
proof -
  from assms obtain u v where "xs = [u, v]"
    by (cases xs; cases "tl xs") (auto simp: MARKER_COUNT_def)
  then show ?thesis by simp
qed

lemma GlScope_ok_cursor:
  assumes "GlScope_ok s"
  shows "selectedCursor s < length (cursorInfo s)"
    and "length (position (cursorInfo s ! selectedCursor s)) = MARKER_COUNT"
  using assms by (simp_all add: GlScope_ok_def list_all_length cursor_ok_def)

text \<open>
  C3 (amended). On a press of the left button in the main view, with the x axis
  capturable for the shapes \<open>RECTANGULAR\<close> and \<open>VERTICAL\<close> and the y axis for
  \<open>RECTANGULAR\<close> and \<open>HORIZONTAL\<close> (neither for \<open>NONE\<close>): marker 1 is anchored when,
  on a capturable axis, its distance to the pointer is strictly less than 1% of the
  full scale and strictly less than the distance of marker 0; otherwise marker 0 is
  anchored when its distance is strictly less than 1% of the full scale on a
  capturable axis. The anchored marker is moved to the pointer position. When every
  capturable-axis distance of both markers is at least 1% of the full scale, no
  marker is anchored and no cursor changes.
\<close>

theorem press_capture:
  fixes s :: "'d GlScope" and c :: view_constants and p :: QPointF
  defines "cur \<equiv> cursorInfo s ! selectedCursor s"
  defines "captureX \<equiv> shape cur = RECTANGULAR \<or> shape cur = VERTICAL"
  defines "captureY \<equiv> shape cur = RECTANGULAR \<or> shape cur = HORIZONTAL"
  defines "dx \<equiv> \<lambda>marker. \<bar>xp (position cur ! marker) - xp p\<bar>"
  defines "dy \<equiv> \<lambda>marker. \<bar>yp (position cur ! marker) - yp p\<bar>"
  defines "hit1 \<equiv> captureX \<and> dx 1 < DIVS_TIME c / 100 \<and> dx 1 < dx 0
                 \<or> captureY \<and> dy 1 < DIVS_VOLTAGE c / 100 \<and> dy 1 < dy 0"
  defines "hit0 \<equiv> captureX \<and> dx 0 < DIVS_TIME c / 100 \<or> captureY \<and> dy 0 < DIVS_VOLTAGE c / 100"
  assumes "valid_constants c" and "GlScope_ok s" and "\<not> zoomed s"
    and "button e = LeftButton" and "eventPosition c s e = Inr p"
  shows "\<exists>s'. mousePressEvent c s e = Inr s' \<and>
     selectedMarker s' = (if hit1 then 1 else if hit0 then 0 else NO_MARKER c) \<and>
     cursorInfo s' =
       (if hit1 then (cursorInfo s)[selectedCursor s := cur\<lparr>position := (position cur)[1 := p]\<rparr>]
        else if hit0 then (cursorInfo s)[selectedCursor s := cur\<lparr>position := (position cur)[0 := p]\<rparr>]
        else cursorInfo s) \<and>
     markerMoved s' =
       (if (hit1 \<or> hit0) \<and> selectedCursor s = 0 then markerMoved s @ [selectedMarker s']
        else markerMoved s)"
proof -
  from \<open>valid_constants c\<close> have pos: "0 < DIVS_TIME c" "0 < DIVS_VOLTAGE c"
    and no: "NO_MARKER c \<noteq> 0" "NO_MARKER c \<noteq> 1"
    by (simp_all add: valid_constants_def MARKER_COUNT_def)
  have sel: "captureNearestMarker c cur p = (if hit1 then 1 else if hit0 then 0 else NO_MARKER c)"
    unfolding hit1_def hit0_def captureX_def captureY_def dx_def dy_def
    by (simp only: captureNearestMarker_eq [OF pos])
  from \<open>GlScope_ok s\<close> have "selectedCursor s < length (cursorInfo s)"
    by (rule GlScope_ok_cursor)
  then have "mousePressEvent c s e =
     (if captureNearestMarker c cur p \<noteq> NO_MARKER c
      then Inr (s\<lparr>selectedMarker := captureNearestMarker c cur p,
                 cursorInfo := (cursorInfo s)[selectedCursor s :=
                   cur\<lparr>position := (position cur)[captureNearestMarker c cur p := p]\<rparr>],
                 markerMoved := markerMoved s @
                   (if selectedCursor s = 0 then [captureNearestMarker c cur p] else [])\<rparr>)
      else Inr (s\<lparr>selectedMarker := NO_MARKER c\<rparr>))"
    unfolding cur_def using assms(10-12) by (rule mousePressEvent_result)
  with sel no show ?thesis by auto
qed


lemma upt_two: "[0..<2] = [0, Suc 0]"
  by (simp add: upt_rec)

lemmas example_handler_defs =
  example_constants_def example_view_def example_event_def
  eventPosition_def fdiv_def signed_divide_int_def
  captureNearestMarker_def captureStep_def MARKER_COUNT_def upt_two setX_def setY_def
  setPosition_def emit_markerMoved_def Let_def

theorem press_capture_witness:
  "valid_constants example_constants \<and>
   GlScope_ok (example_view [\<lparr>shape = VERTICAL, position = [QPointF 0 0, QPointF 3 0]\<rparr>] 0 0) \<and>
   \<not> zoomed (example_view [\<lparr>shape = VERTICAL, position = [QPointF 0 0, QPointF 3 0]\<rparr>] 0 0) \<and>
   button (example_event 503 300) = LeftButton \<and>
   eventPosition example_constants
     (example_view [\<lparr>shape = VERTICAL, position = [QPointF 0 0, QPointF 3 0]\<rparr>] 0 0)
     (example_event 503 300) = Inr (QPointF (3 / 100) 1) \<and>
   mousePressEvent example_constants
     (example_view [\<lparr>shape = VERTICAL, position = [QPointF 0 0, QPointF 3 0]\<rparr>] 0 0)
     (example_event 503 300) =
   Inr ((example_view [\<lparr>shape = VERTICAL, position = [QPointF (3 / 100) 1, QPointF 3 0]\<rparr>] 0 0)
          \<lparr>markerMoved := [0]\<rparr>)"
  using press_capture [where c = example_constants
      and s = "example_view [\<lparr>shape = VERTICAL, position = [QPointF 0 0, QPointF 3 0]\<rparr>] 0 0 :: nat GlScope"
      and e = "example_event 503 300" and p = "QPointF (3 / 100) 1"]
  by (simp add: example_handler_defs valid_constants_def GlScope_ok_def
        cursor_ok_def mousePressEvent_def)

text \<open>
  Two presses where a marker within the snap area of its axis is not anchored. With a
  rectangular cursor, marker 0 is nearest on the x axis at distance 0, yet marker 1,
  captured on the y axis, is anchored and moved. With a vertical cursor, marker 0 is
  at exactly 1% of the full scale and nothing is anchored.
\<close>

theorem press_capture_counterexample:
  "shape \<lparr>shape = RECTANGULAR, position = [QPointF 0 0, QPointF 3 2]\<rparr> = RECTANGULAR \<and>
   eventPosition example_constants
     (example_view [\<lparr>shape = RECTANGULAR, position = [QPointF 0 0, QPointF 3 2]\<rparr>] 0 4294967295)
     (example_event 500 200) = Inr (QPointF 0 2) \<and>
   \<bar>xp (QPointF 0 0) - xp (QPointF 0 2)\<bar> < DIVS_TIME example_constants / 100 \<and>
   \<bar>xp (QPointF 0 0) - xp (QPointF 0 2)\<bar> < \<bar>xp (QPointF 3 2) - xp (QPointF 0 2)\<bar> \<and>
   mousePressEvent example_constants
     (example_view [\<lparr>shape = RECTANGULAR, position = [QPointF 0 0, QPointF 3 2]\<rparr>] 0 4294967295)
     (example_event 500 200) =
   Inr ((example_view [\<lparr>shape = RECTANGULAR, position = [QPointF 0 0, QPointF 0 2]\<rparr>] 0 1)
          \<lparr>markerMoved := [1]\<rparr>) \<and>
   shape \<lparr>shape = VERTICAL, position = [QPointF 0 0, QPointF 3 0]\<rparr> = VERTICAL \<and>
   eventPosition example_constants
     (example_view [\<lparr>shape = VERTICAL, position = [QPointF 0 0, QPointF 3 0]\<rparr>] 0 4294967295)
     (example_event 510 400) = Inr (QPointF (1 / 10) 0) \<and>
   \<bar>xp (QPointF 0 0) - xp (QPointF (1 / 10) 0)\<bar> = DIVS_TIME example_constants / 100 \<and>
   mousePressEvent example_constants
     (example_view [\<lparr>shape = VERTICAL, position = [QPointF 0 0, QPointF 3 0]\<rparr>] 0 4294967295)
     (example_event 510 400) =
   Inr (example_view [\<lparr>shape = VERTICAL, position = [QPointF 0 0, QPointF 3 0]\<rparr>] 0 4294967295)"
  by (simp add: example_handler_defs mousePressEvent_def)

lemma captureNearestMarker_none:
  assumes "0 < DIVS_TIME c" and "0 < DIVS_VOLTAGE c"
    and "shape cur = RECTANGULAR \<or> shape cur = VERTICAL \<longrightarrow>
           DIVS_TIME c / 100 \<le> \<bar>xp (position cur ! 0) - xp p\<bar> \<and>
           DIVS_TIME c / 100 \<le> \<bar>xp (position cur ! 1) - xp p\<bar>"
    and "shape cur = RECTANGULAR \<or> shape cur = HORIZONTAL \<longrightarrow>
           DIVS_VOLTAGE c / 100 \<le> \<bar>yp (position cur ! 0) - yp p\<bar> \<and>
           DIVS_VOLTAGE c / 100 \<le> \<bar>yp (position cur ! 1) - yp p\<bar>"
  shows "captureNearestMarker c cur p = NO_MARKER c"
proof -
  have x0: "\<not> ((shape cur = RECTANGULAR \<or> shape cur = VERTICAL) \<and>
        \<bar>xp (position cur ! 0) - xp p\<bar> < DIVS_TIME c / 100)"
    using assms(3) by (auto simp: not_less)
  have x1: "\<not> ((shape cur = RECTANGULAR \<or> shape cur = VERTICAL) \<and>
        \<bar>xp (position cur ! 1) - xp p\<bar> < DIVS_TIME c / 100 \<and>
        \<bar>xp (position cur ! 1) - xp p\<bar> < \<bar>xp (position cur ! 0) - xp p\<bar>)"
    using assms(3) by (auto simp: not_less)
  have y0: "\<not> ((shape cur = RECTANGULAR \<or> shape cur = HORIZONTAL) \<and>
        \<bar>yp (position cur ! 0) - yp p\<bar> < DIVS_VOLTAGE c / 100)"
    using assms(4) by (auto simp: not_less)
  have y1: "\<not> ((shape cur = RECTANGULAR \<or> shape cur = HORIZONTAL) \<and>
        \<bar>yp (position cur ! 1) - yp p\<bar> < DIVS_VOLTAGE c / 100 \<and>
        \<bar>yp (position cur ! 1) - yp p\<bar> < \<bar>yp (position cur ! 0) - yp p\<bar>)"
    using assms(4) by (auto simp: not_less)
  show ?thesis
    unfolding captureNearestMarker_eq [OF assms(1,2)] using x0 x1 y0 y1
    by (simp only: simp_thms if_False)
qed


lemma press_outside:
  fixes s :: "'d GlScope"
  assumes "valid_constants c" and "selectedCursor s < length (cursorInfo s)" and "\<not> zoomed s"
    and "button e = LeftButton" and "eventPosition c s e = Inr p"
    and "captureNearestMarker c (cursorInfo s ! selectedCursor s) p = NO_MARKER c"
  shows "mousePressEvent c s e = Inr (s\<lparr>selectedMarker := NO_MARKER c\<rparr>)"
  using mousePressEvent_result [OF assms(2-5)] assms(6) by simp

lemma move_unanchored:
  fixes s :: "'d GlScope"
  assumes "selectedCursor s < length (cursorInfo s)" and "\<not> zoomed s"
    and "LeftButton \<in> buttons e" and "eventPosition c s e = Inr p"
    and "selectedMarker s = NO_MARKER c"
    and "length (position (cursorInfo s ! selectedCursor s)) = MARKER_COUNT"
  shows "mouseMoveEvent c s e =
     Inr (s\<lparr>selectedMarker := 1,
             cursorInfo := (cursorInfo s)[selectedCursor s :=
               (cursorInfo s ! selectedCursor s)\<lparr>position := [p, p]\<rparr>],
             markerMoved := markerMoved s @ [0, 1]\<rparr>)"
  using mouseMoveEvent_result [OF assms(1-4)] assms(5) list_update_pair [OF assms(6)]
  by simp

lemma move_anchored:
  fixes s :: "'d GlScope"
  assumes "selectedCursor s < length (cursorInfo s)" and "\<not> zoomed s"
    and "LeftButton \<in> buttons e" and "eventPosition c s e = Inr p"
    and "selectedMarker s \<noteq> NO_MARKER c" and "selectedMarker s < MARKER_COUNT"
  shows "mouseMoveEvent c s e =
     Inr (s\<lparr>cursorInfo := (cursorInfo s)[selectedCursor s :=
               (cursorInfo s ! selectedCursor s)\<lparr>position :=
                 (position (cursorInfo s ! selectedCursor s))[selectedMarker s := p]\<rparr>],
             markerMoved := markerMoved s @ [selectedMarker s]\<rparr>)"
  using mouseMoveEvent_result [OF assms(1-4)] assms(5,6) by simp


text \<open>
  C4. For every selected cursor: after a press of the left button in the main view
  outside every snap zone (no marker is anchored, nothing changes), a move to \<open>P1\<close>
  sets both markers of the selected cursor to \<open>P1\<close> and anchors marker 1; a second
  move to \<open>P2\<close> sets marker 1 to \<open>P2\<close> and leaves marker 0 at \<open>P1\<close>.
\<close>

theorem unanchored_drag:
  fixes s :: "'d GlScope" and c :: view_constants and p0 :: QPointF
  defines "cur \<equiv> cursorInfo s ! selectedCursor s"
  assumes "valid_constants c" and "GlScope_ok s" and "\<not> zoomed s"
    and "button e0 = LeftButton" and "eventPosition c s e0 = Inr p0"
    and "shape cur = RECTANGULAR \<or> shape cur = VERTICAL \<longrightarrow>
           DIVS_TIME c / 100 \<le> \<bar>xp (position cur ! 0) - xp p0\<bar> \<and>
           DIVS_TIME c / 100 \<le> \<bar>xp (position cur ! 1) - xp p0\<bar>"
    and "shape cur = RECTANGULAR \<or> shape cur = HORIZONTAL \<longrightarrow>
           DIVS_VOLTAGE c / 100 \<le> \<bar>yp (position cur ! 0) - yp p0\<bar> \<and>
           DIVS_VOLTAGE c / 100 \<le> \<bar>yp (position cur ! 1) - yp p0\<bar>"
    and "LeftButton \<in> buttons e1" and "eventPosition c s e1 = Inr p1"
    and "LeftButton \<in> buttons e2" and "eventPosition c s e2 = Inr p2"
  shows "\<exists>s0 s1 s2.
     mousePressEvent c s e0 = Inr s0 \<and> selectedMarker s0 = NO_MARKER c \<and>
     cursorInfo s0 = cursorInfo s \<and> markerMoved s0 = markerMoved s \<and>
     mouseMoveEvent c s0 e1 = Inr s1 \<and>
     position (cursorInfo s1 ! selectedCursor s) = [p1, p1] \<and> selectedMarker s1 = 1 \<and>
     mouseMoveEvent c s1 e2 = Inr s2 \<and>
     position (cursorInfo s2 ! selectedCursor s) = [p1, p2] \<and> selectedMarker s2 = 1"
proof -
  from \<open>valid_constants c\<close> have pos: "0 < DIVS_TIME c" "0 < DIVS_VOLTAGE c"
    and no: "1 \<noteq> NO_MARKER c"
    by (simp_all add: valid_constants_def MARKER_COUNT_def)
  from \<open>GlScope_ok s\<close> have inr: "selectedCursor s < length (cursorInfo s)"
    and len: "length (position cur) = MARKER_COUNT"
    unfolding cur_def by (rule GlScope_ok_cursor)+
  define s0 where "s0 = s\<lparr>selectedMarker := NO_MARKER c\<rparr>"
  define s1 where "s1 = s0\<lparr>selectedMarker := 1,
      cursorInfo := (cursorInfo s0)[selectedCursor s0 := cur\<lparr>position := [p1, p1]\<rparr>],
      markerMoved := markerMoved s0 @ [0, 1]\<rparr>"
  define s2 where "s2 = s1\<lparr>cursorInfo := (cursorInfo s1)[selectedCursor s1 :=
        (cursorInfo s1 ! selectedCursor s1)\<lparr>position :=
           (position (cursorInfo s1 ! selectedCursor s1))[selectedMarker s1 := p2]\<rparr>],
      markerMoved := markerMoved s1 @ [selectedMarker s1]\<rparr>"
  have none: "captureNearestMarker c (cursorInfo s ! selectedCursor s) p0 = NO_MARKER c"
    using pos assms(7,8) unfolding cur_def by (rule captureNearestMarker_none)
  have press: "mousePressEvent c s e0 = Inr s0"
    unfolding s0_def using assms(2) inr assms(4-6) none by (rule press_outside)
  have s0_facts: "selectedCursor s0 < length (cursorInfo s0)" "\<not> zoomed s0"
    "selectedMarker s0 = NO_MARKER c" "cursorInfo s0 ! selectedCursor s0 = cur"
    "length (position (cursorInfo s0 ! selectedCursor s0)) = MARKER_COUNT"
    "cursorInfo s0 = cursorInfo s" "markerMoved s0 = markerMoved s"
    using inr assms(4) len by (simp_all add: s0_def cur_def)
  have e1: "eventPosition c s0 e1 = Inr p1"
    using assms(10) eventPosition_fields [of s0 s c e1] by (simp add: s0_def)
  have move1: "mouseMoveEvent c s0 e1 = Inr s1"
    unfolding s1_def s0_facts(4) [symmetric]
    using s0_facts(1,2) assms(9) e1 s0_facts(3,5) by (rule move_unanchored)
  have s1_facts: "selectedCursor s1 < length (cursorInfo s1)" "\<not> zoomed s1"
    "selectedMarker s1 = 1" "selectedCursor s1 = selectedCursor s"
    "position (cursorInfo s1 ! selectedCursor s1) = [p1, p1]"
    using s0_facts inr by (simp_all add: s1_def s0_def)
  have e2: "eventPosition c s1 e2 = Inr p2"
    using assms(12) eventPosition_fields [of s1 s c e2] by (simp add: s1_def s0_def)
  have move2: "mouseMoveEvent c s1 e2 = Inr s2"
    unfolding s2_def
    using s1_facts(1,2) assms(11) e2
  proof (rule move_anchored)
    show "selectedMarker s1 \<noteq> NO_MARKER c" using no by (simp add: s1_facts)
    show "selectedMarker s1 < MARKER_COUNT" by (simp add: s1_facts MARKER_COUNT_def)
  qed
  have s2_facts: "position (cursorInfo s2 ! selectedCursor s) = [p1, p2]" "selectedMarker s2 = 1"
    using s1_facts by (simp_all add: s2_def)
  from press s0_facts(3,6,7) move1 s1_facts(3,4,5) move2 s2_facts show ?thesis
    by auto
qed


theorem unanchored_drag_witness:
  "valid_constants example_constants \<and>
   GlScope_ok (example_view [\<lparr>shape = VERTICAL, position = [QPointF 0 0, QPointF 3 0]\<rparr>] 0 4294967295) \<and>
   \<not> zoomed (example_view [\<lparr>shape = VERTICAL, position = [QPointF 0 0, QPointF 3 0]\<rparr>] 0 4294967295) \<and>
   button (example_event 600 400) = LeftButton \<and>
   eventPosition example_constants
     (example_view [\<lparr>shape = VERTICAL, position = [QPointF 0 0, QPointF 3 0]\<rparr>] 0 4294967295)
     (example_event 600 400) = Inr (QPointF 1 0) \<and>
   DIVS_TIME example_constants / 100 \<le> \<bar>xp (QPointF 0 0) - xp (QPointF 1 0)\<bar> \<and>
   DIVS_TIME example_constants / 100 \<le> \<bar>xp (QPointF 3 0) - xp (QPointF 1 0)\<bar> \<and>
   LeftButton \<in> buttons (example_event 700 300) \<and>
   eventPosition example_constants
     (example_view [\<lparr>shape = VERTICAL, position = [QPointF 0 0, QPointF 3 0]\<rparr>] 0 4294967295)
     (example_event 700 300) = Inr (QPointF 2 1) \<and>
   LeftButton \<in> buttons (example_event 800 200) \<and>
   eventPosition example_constants
     (example_view [\<lparr>shape = VERTICAL, position = [QPointF 0 0, QPointF 3 0]\<rparr>] 0 4294967295)
     (example_event 800 200) = Inr (QPointF 3 2) \<and>
   mousePressEvent example_constants
     (example_view [\<lparr>shape = VERTICAL, position = [QPointF 0 0, QPointF 3 0]\<rparr>] 0 4294967295)
     (example_event 600 400) =
   Inr (example_view [\<lparr>shape = VERTICAL, position = [QPointF 0 0, QPointF 3 0]\<rparr>] 0 4294967295) \<and>
   mouseMoveEvent example_constants
     (example_view [\<lparr>shape = VERTICAL, position = [QPointF 0 0, QPointF 3 0]\<rparr>] 0 4294967295)
     (example_event 700 300) =
   Inr ((example_view [\<lparr>shape = VERTICAL, position = [QPointF 2 1, QPointF 2 1]\<rparr>] 0 1)
          \<lparr>markerMoved := [0, 1]\<rparr>) \<and>
   mouseMoveEvent example_constants
     ((example_view [\<lparr>shape = VERTICAL, position = [QPointF 2 1, QPointF 2 1]\<rparr>] 0 1)
          \<lparr>markerMoved := [0, 1]\<rparr>)
     (example_event 800 200) =
   Inr ((example_view [\<lparr>shape = VERTICAL, position = [QPointF 2 1, QPointF 3 2]\<rparr>] 0 1)
          \<lparr>markerMoved := [0, 1, 1]\<rparr>)"
  using unanchored_drag [where c = example_constants
      and s = "example_view [\<lparr>shape = VERTICAL, position = [QPointF 0 0, QPointF 3 0]\<rparr>] 0 4294967295 :: nat GlScope"
      and ?e0.0 = "example_event 600 400" and ?p0.0 = "QPointF 1 0"
      and ?e1.0 = "example_event 700 300" and ?p1.0 = "QPointF 2 1"
      and ?e2.0 = "example_event 800 200" and ?p2.0 = "QPointF 3 2"]
  by (simp add: example_handler_defs valid_constants_def GlScope_ok_def cursor_ok_def
        mousePressEvent_def mouseMoveEvent_def)

lemma move_notified:
  fixes s :: "'d GlScope"
  assumes "selectedCursor s < length (cursorInfo s)" and "eventPosition c s e = Inr p"
  shows "\<exists>s' ms. mouseMoveEvent c s e = Inr s' \<and> markerMoved s' = markerMoved s @ ms \<and>
     cursorInfo s' = (cursorInfo s)[selectedCursor s :=
        (cursorInfo s ! selectedCursor s)\<lparr>position :=
           fold (\<lambda>m ps. ps[m := p]) ms (position (cursorInfo s ! selectedCursor s))\<rparr>]"
proof (cases "\<not> zoomed s \<and> LeftButton \<in> buttons e")
  case False
  then have "mouseMoveEvent c s e = Inr s" by (auto simp: mouseMoveEvent_def)
  then show ?thesis by (intro exI [of _ s] exI [of _ "[]"]) simp
next
  case True
  then have r: "mouseMoveEvent c s e =
     (if selectedMarker s = NO_MARKER c
      then Inr (s\<lparr>selectedMarker := 1,
             cursorInfo := (cursorInfo s)[selectedCursor s :=
               (cursorInfo s ! selectedCursor s)\<lparr>position :=
                 (position (cursorInfo s ! selectedCursor s))[0 := p, 1 := p]\<rparr>],
             markerMoved := markerMoved s @ [0, 1]\<rparr>)
      else if selectedMarker s < MARKER_COUNT
      then Inr (s\<lparr>cursorInfo := (cursorInfo s)[selectedCursor s :=
               (cursorInfo s ! selectedCursor s)\<lparr>position :=
                 (position (cursorInfo s ! selectedCursor s))[selectedMarker s := p]\<rparr>],
             markerMoved := markerMoved s @ [selectedMarker s]\<rparr>)
      else Inr s)"
    using assms by (intro mouseMoveEvent_result) simp_all
  consider (none) "selectedMarker s = NO_MARKER c"
    | (anchored) "selectedMarker s \<noteq> NO_MARKER c" "selectedMarker s < MARKER_COUNT"
    | (other) "selectedMarker s \<noteq> NO_MARKER c" "\<not> selectedMarker s < MARKER_COUNT"
    by blast
  then show ?thesis
  proof cases
    case none
    with r show ?thesis
      by (intro exI [of _ "s\<lparr>selectedMarker := 1,
             cursorInfo := (cursorInfo s)[selectedCursor s :=
               (cursorInfo s ! selectedCursor s)\<lparr>position :=
                 (position (cursorInfo s ! selectedCursor s))[0 := p, 1 := p]\<rparr>],
             markerMoved := markerMoved s @ [0, 1]\<rparr>"] exI [of _ "[0, 1]"]) simp
  next
    case anchored
    with r show ?thesis
      by (intro exI [of _ "s\<lparr>cursorInfo := (cursorInfo s)[selectedCursor s :=
               (cursorInfo s ! selectedCursor s)\<lparr>position :=
                 (position (cursorInfo s ! selectedCursor s))[selectedMarker s := p]\<rparr>],
             markerMoved := markerMoved s @ [selectedMarker s]\<rparr>"] exI [of _ "[selectedMarker s]"]) simp
  next
    case other
    with r show ?thesis by (intro exI [of _ s] exI [of _ "[]"]) simp
  qed
qed


lemma release_notified:
  fixes s :: "'d GlScope"
  assumes "selectedCursor s < length (cursorInfo s)" and "eventPosition c s e = Inr p"
  shows "\<exists>s' ms. mouseReleaseEvent c s e = Inr s' \<and> markerMoved s' = markerMoved s @ ms \<and>
     cursorInfo s' = (cursorInfo s)[selectedCursor s :=
        (cursorInfo s ! selectedCursor s)\<lparr>position :=
           fold (\<lambda>m ps. ps[m := p]) ms (position (cursorInfo s ! selectedCursor s))\<rparr>]"
proof (cases "\<not> zoomed s \<and> button e = LeftButton")
  case False
  then have "mouseReleaseEvent c s e = Inr s" by (auto simp: mouseReleaseEvent_def)
  then show ?thesis by (intro exI [of _ s] exI [of _ "[]"]) simp
next
  case True
  then have r: "mouseReleaseEvent c s e =
     (if selectedMarker s < MARKER_COUNT
      then Inr (s\<lparr>selectedMarker := NO_MARKER c,
             cursorInfo := (cursorInfo s)[selectedCursor s :=
               (cursorInfo s ! selectedCursor s)\<lparr>position :=
                 (position (cursorInfo s ! selectedCursor s))[selectedMarker s := p]\<rparr>],
             markerMoved := markerMoved s @ [selectedMarker s]\<rparr>)
      else Inr (s\<lparr>selectedMarker := NO_MARKER c\<rparr>))"
    using assms by (intro mouseReleaseEvent_result) simp_all
  show ?thesis
  proof (cases "selectedMarker s < MARKER_COUNT")
    case anchored: True
    with r show ?thesis
      by (intro exI [of _ "s\<lparr>selectedMarker := NO_MARKER c,
             cursorInfo := (cursorInfo s)[selectedCursor s :=
               (cursorInfo s ! selectedCursor s)\<lparr>position :=
                 (position (cursorInfo s ! selectedCursor s))[selectedMarker s := p]\<rparr>],
             markerMoved := markerMoved s @ [selectedMarker s]\<rparr>"] exI [of _ "[selectedMarker s]"]) simp
  next
    case False
    with r show ?thesis
      by (intro exI [of _ "s\<lparr>selectedMarker := NO_MARKER c\<rparr>"] exI [of _ "[]"]) simp
  qed
qed

text \<open>
  The two lemmas above are the pointer-move and the pointer-up handler: each emits
  \<open>markerMoved\<close> for every marker it sets, whichever cursor is selected, and the
  cursors afterwards are the cursors before with exactly the markers of the emitted
  signals set to the pointer position. The slot connected to the signal regenerates
  the geometry of the marker.
\<close>

text \<open>
  C10. Every marker set by a pointer handler is to be followed by a \<open>markerMoved\<close>
  signal for that marker, whichever cursor is selected. The pointer-down handler
  does not do so: \<open>mousePressEvent\<close> emits the signal only under the test
  \<^verbatim>\<open>selectedCursor == 0\<close>. A press on marker 0 of the cursor with index 1 moves the
  marker to the pointer position and emits no signal, while a pointer-move and a
  pointer-up at the same position, with that marker anchored, each emit the signal
  for marker 0.
\<close>

theorem press_notification_counterexample:
  "mousePressEvent example_constants
     (example_view [\<lparr>shape = VERTICAL, position = [QPointF 0 0, QPointF 3 0]\<rparr>,
                    \<lparr>shape = VERTICAL, position = [QPointF 0 0, QPointF 3 0]\<rparr>] 1 4294967295)
     (example_event 505 300) =
   Inr (example_view [\<lparr>shape = VERTICAL, position = [QPointF 0 0, QPointF 3 0]\<rparr>,
                      \<lparr>shape = VERTICAL, position = [QPointF (1 / 20) 1, QPointF 3 0]\<rparr>] 1 0) \<and>
   QPointF (1 / 20) 1 \<noteq> QPointF 0 0 \<and>
   markerMoved (example_view [\<lparr>shape = VERTICAL, position = [QPointF 0 0, QPointF 3 0]\<rparr>,
                      \<lparr>shape = VERTICAL, position = [QPointF (1 / 20) 1, QPointF 3 0]\<rparr>] 1 0) = [] \<and>
   mouseMoveEvent example_constants
     (example_view [\<lparr>shape = VERTICAL, position = [QPointF 0 0, QPointF 3 0]\<rparr>,
                    \<lparr>shape = VERTICAL, position = [QPointF 0 0, QPointF 3 0]\<rparr>] 1 0)
     (example_event 505 300) =
   Inr ((example_view [\<lparr>shape = VERTICAL, position = [QPointF 0 0, QPointF 3 0]\<rparr>,
                       \<lparr>shape = VERTICAL, position = [QPointF (1 / 20) 1, QPointF 3 0]\<rparr>] 1 0)
          \<lparr>markerMoved := [0]\<rparr>) \<and>
   mouseReleaseEvent example_constants
     (example_view [\<lparr>shape = VERTICAL, position = [QPointF 0 0, QPointF 3 0]\<rparr>,
                    \<lparr>shape = VERTICAL, position = [QPointF 0 0, QPointF 3 0]\<rparr>] 1 0)
     (example_event 505 300) =
   Inr ((example_view [\<lparr>shape = VERTICAL, position = [QPointF 0 0, QPointF 3 0]\<rparr>,
                       \<lparr>shape = VERTICAL, position = [QPointF (1 / 20) 1, QPointF 3 0]\<rparr>] 1 4294967295)
          \<lparr>markerMoved := [0]\<rparr>)"
  by (simp add: example_handler_defs mousePressEvent_def mouseMoveEvent_def mouseReleaseEvent_def)

end
